theory Spec2Isabelle
  imports Main "HOL-Library.Sublist" "HOL-Library.AList"
begin

section \<open>Strings and paths\<close>

text \<open>
  Python strings are modelled as \<open>string\<close>; file contents are byte strings of the same
  type. \<open>str.lower\<close> is modelled on the ASCII letters; every other character is left
  alone (no character outside ASCII lower-cases to a letter of the allow-list of
  \<open>upload\<close>, so the membership test there is not affected).
\<close>

definition lower_char :: "char \<Rightarrow> char" where
  "lower_char c =
     (case map_of (zip ''ABCDEFGHIJKLMNOPQRSTUVWXYZ'' ''abcdefghijklmnopqrstuvwxyz'') c of
        Some d \<Rightarrow> d
      | None \<Rightarrow> c)"

definition lower :: "string \<Rightarrow> string" where
  "lower s = map lower_char s"

text \<open>\<open>sep.join(xs)\<close>.\<close>

fun join :: "string \<Rightarrow> string list \<Rightarrow> string" where
  "join sep [] = []"
| "join sep [x] = x"
| "join sep (x # y # ys) = x @ sep @ join sep (y # ys)"

text \<open>\<open>str.rfind\<close> for a single character: the highest index, or \<open>-1\<close>.\<close>

fun rfind :: "string \<Rightarrow> char \<Rightarrow> int" where
  "rfind [] c = - 1"
| "rfind (x # xs) c = (let r = rfind xs c in if 0 \<le> r then r + 1 else if x = c then 0 else - 1)"

text \<open>
  \<open>os.path.splitext\<close> (POSIX: separator \<open>/\<close>, no alternative separator, extension
  separator \<open>.\<close>). The loop of the library function skips the leading dots of the last
  path segment; it returns from inside the loop at the first character that is not a dot.
\<close>

function splitext_loop :: "string \<Rightarrow> int \<Rightarrow> int \<Rightarrow> (string \<times> string) option" where
  "splitext_loop p filenameIndex dotIndex =
     (if filenameIndex < dotIndex then
        (if take 1 (drop (nat filenameIndex) p) \<noteq> ''.''
         then Some (take (nat dotIndex) p, drop (nat dotIndex) p)
         else splitext_loop p (filenameIndex + 1) dotIndex)
      else None)"
  by pat_completeness auto
termination
  by (relation "measure (\<lambda>(p, i, d). nat (d - i))") auto

declare splitext_loop.simps [simp del]

definition splitext :: "string \<Rightarrow> string \<times> string" where
  "splitext p =
     (let sepIndex = rfind p (CHR ''/'');
          dotIndex = rfind p (CHR ''.'')
      in if dotIndex > sepIndex then
           (case splitext_loop p (sepIndex + 1) dotIndex of
              Some r \<Rightarrow> r
            | None \<Rightarrow> (p, []))
         else (p, []))"

text \<open>
  A \<open>pathlib.Path\<close> is the list of its components below the root \<open>/\<close>; all paths of the
  program are absolute, since \<open>BASE_DIR\<close> is resolved.
\<close>

type_synonym path = "string list"

definition str_path :: "path \<Rightarrow> string" where
  "str_path p = (if p = [] then ''/'' else concat (map (\<lambda>c. ''/'' @ c) p))"

text \<open>\<open>as_posix\<close> of a relative path.\<close>

definition as_posix :: "path \<Rightarrow> string" where
  "as_posix p = (if p = [] then ''.'' else join ''/'' p)"

text \<open>\<open>Path.name\<close>: the last component.\<close>

definition name :: "path \<Rightarrow> string" where
  "name p = (if p = [] then [] else last p)"

fun split_sep :: "char \<Rightarrow> string \<Rightarrow> string list" where
  "split_sep s [] = [[]]"
| "split_sep s (x # xs) =
     (if x = s then [] # split_sep s xs
      else (case split_sep s xs of
              [] \<Rightarrow> [[x]]
            | w # ws \<Rightarrow> (x # w) # ws))"

text \<open>
  The components pathlib keeps of a string: empty components and \<open>.\<close> are dropped,
  \<open>..\<close> is kept. \<open>base / s\<close> is \<open>s\<close> itself when \<open>s\<close> is absolute.
\<close>

definition parts :: "string \<Rightarrow> path" where
  "parts s = filter (\<lambda>c. c \<noteq> [] \<and> c \<noteq> ''.'') (split_sep (CHR ''/'') s)"

definition truediv :: "path \<Rightarrow> string \<Rightarrow> path" where
  "truediv base s = (if take 1 s = ''/'' then parts s else base @ parts s)"

section \<open>Exceptions, responses\<close>

text \<open>
  The exceptions the program can meet. The operating-system errors carry the file name
  they are about; \<open>OSError\<close> is one that has no class of its own, with its error number.
\<close>

datatype exn =
    RuntimeError string
  | FileNotFoundError string
  | NotADirectoryError string
  | IsADirectoryError string
  | FileExistsError string
  | SameFileError string string
  | ValueError string string
  | OSError nat string
  | OtherException string

datatype json = JString string | JBool bool | JObject "(string \<times> json) list"

text \<open>
  What a request is answered with: a JSON body with its status, the bytes of a file
  (status 200), the not-found page Werkzeug produces when \<open>send_from_directory\<close> raises
  \<open>NotFound\<close>, or the status 500 Flask answers with when a handler lets an exception
  escape.
\<close>

datatype response =
    Json_response nat json
  | File_response string
  | NotFound_page
  | Unhandled exn

fun status :: "response \<Rightarrow> nat" where
  "status (Json_response s j) = s"
| "status (File_response b) = 200"
| "status NotFound_page = 404"
| "status (Unhandled e) = 500"

definition detail :: "string \<Rightarrow> json" where
  "detail m = JObject [(''detail'', JString m)]"

section \<open>The file system\<close>

text \<open>
  A directory tree. The entries of a directory are kept in a list, whose order is the
  order \<open>iterdir\<close> yields them in; \<open>map_of\<close> looks a name up.
\<close>

datatype node = File string | Dir "(string \<times> node) list"

fun lookup :: "node \<Rightarrow> path \<Rightarrow> node option" where
  "lookup n [] = Some n"
| "lookup (File b) (c # cs) = None"
| "lookup (Dir es) (c # cs) = (case map_of es c of None \<Rightarrow> None | Some x \<Rightarrow> lookup x cs)"

definition exists :: "node \<Rightarrow> path \<Rightarrow> bool" where
  "exists fs p = (lookup fs p \<noteq> None)"

definition is_dir :: "node \<Rightarrow> path \<Rightarrow> bool" where
  "is_dir fs p = (case lookup fs p of Some (Dir es) \<Rightarrow> True | _ \<Rightarrow> False)"

text \<open>Whether resolving a path runs into a regular file before its end (\<open>ENOTDIR\<close>).\<close>

fun through_file :: "node \<Rightarrow> path \<Rightarrow> bool" where
  "through_file n [] = False"
| "through_file (File b) (c # cs) = True"
| "through_file (Dir es) (c # cs) =
     (case map_of es c of None \<Rightarrow> False | Some x \<Rightarrow> through_file x cs)"

definition missing :: "node \<Rightarrow> path \<Rightarrow> exn" where
  "missing fs p =
     (if through_file fs p then NotADirectoryError (str_path p)
      else FileNotFoundError (str_path p))"

text \<open>
  \<open>update_at p f\<close> replaces what is at \<open>p\<close> by \<open>f\<close> of it (\<open>None\<close>: nothing there, or
  remove it), when the parent of \<open>p\<close> is a directory; otherwise the tree is unchanged.
\<close>

fun update_at :: "path \<Rightarrow> (node option \<Rightarrow> node option) \<Rightarrow> node \<Rightarrow> node" where
  "update_at [] f n = n"
| "update_at (c # cs) f (File b) = File b"
| "update_at [c] f (Dir es) =
     (case f (map_of es c) of
        None \<Rightarrow> Dir (AList.delete c es)
      | Some x \<Rightarrow> Dir (AList.update c x es))"
| "update_at (c # d # cs) f (Dir es) =
     (case map_of es c of
        None \<Rightarrow> Dir es
      | Some x \<Rightarrow> Dir (AList.update c (update_at (d # cs) f x) es))"

text \<open>\<open>open(p, "rb").read()\<close> and \<open>open(p, "wb").write(data)\<close>.\<close>

definition read_file :: "node \<Rightarrow> path \<Rightarrow> exn + string" where
  "read_file fs p =
     (case lookup fs p of
        Some (File b) \<Rightarrow> Inr b
      | Some (Dir es) \<Rightarrow> Inl (IsADirectoryError (str_path p))
      | None \<Rightarrow> Inl (missing fs p))"

definition write_file :: "node \<Rightarrow> path \<Rightarrow> string \<Rightarrow> exn + node" where
  "write_file fs p data =
     (if p = [] then Inl (IsADirectoryError (str_path p))
      else (case lookup fs (butlast p) of
              None \<Rightarrow> Inl (missing fs p)
            | Some (File b) \<Rightarrow> Inl (NotADirectoryError (str_path p))
            | Some (Dir es) \<Rightarrow>
                (case map_of es (last p) of
                   Some (Dir es') \<Rightarrow> Inl (IsADirectoryError (str_path p))
                 | _ \<Rightarrow> Inr (update_at p (\<lambda>_. Some (File data)) fs))))"

text \<open>
  \<open>Path.mkdir(parents=True, exist_ok=True)\<close>: the missing directories of the path are
  created; a regular file on the way is an error.
\<close>

fun mkdir_p :: "node \<Rightarrow> path \<Rightarrow> bool + node" where
  "mkdir_p (File b) [] = Inl True"
| "mkdir_p (Dir es) [] = Inr (Dir es)"
| "mkdir_p (File b) (c # cs) = Inl False"
| "mkdir_p (Dir es) (c # cs) =
     (case mkdir_p (case map_of es c of None \<Rightarrow> Dir [] | Some x \<Rightarrow> x) cs of
        Inl e \<Rightarrow> Inl e
      | Inr x \<Rightarrow> Inr (Dir (AList.update c x es)))"

definition mkdir :: "node \<Rightarrow> path \<Rightarrow> exn + node" where
  "mkdir fs p =
     (case mkdir_p fs p of
        Inl at_end \<Rightarrow>
          Inl (if at_end then FileExistsError (str_path p) else NotADirectoryError (str_path p))
      | Inr fs' \<Rightarrow> Inr fs')"

text \<open>
  \<open>shutil.copy2(src, dst)\<close>: a destination that is a directory stands for the file of
  the source's name in it; copying a file onto itself is an error; the source is opened
  before the destination.
\<close>

definition copy2 :: "node \<Rightarrow> path \<Rightarrow> path \<Rightarrow> exn + node" where
  "copy2 fs src dst =
     (let dst' = (if is_dir fs dst then dst @ [name src] else dst)
      in if exists fs src \<and> src = dst' then Inl (SameFileError (str_path src) (str_path dst'))
         else (case read_file fs src of
                 Inl e \<Rightarrow> Inl e
               | Inr b \<Rightarrow> write_file fs dst' b))"

text \<open>
  \<open>shutil.rmtree(p, ignore_errors=True)\<close>: a directory goes with all it holds; on
  anything else the call fails, and the failure is ignored.
\<close>

definition rmtree :: "node \<Rightarrow> path \<Rightarrow> node" where
  "rmtree fs p = (if is_dir fs p then update_at p (\<lambda>_. None) fs else fs)"

text \<open>\<open>Path.iterdir\<close>, in the order of the directory's entries.\<close>

definition iterdir :: "node \<Rightarrow> path \<Rightarrow> exn + path list" where
  "iterdir fs p =
     (case lookup fs p of
        Some (Dir es) \<Rightarrow> Inr (map (\<lambda>e. p @ [fst e]) es)
      | Some (File b) \<Rightarrow> Inl (NotADirectoryError (str_path p))
      | None \<Rightarrow> Inl (missing fs p))"

text \<open>\<open>Path.relative_to\<close>.\<close>

definition relative_to :: "path \<Rightarrow> path \<Rightarrow> exn + path" where
  "relative_to p base =
     (if prefix base p then Inr (drop (length base) p)
      else Inl (ValueError (str_path p) (str_path base)))"

text \<open>
  The path of a request comes from the client and may hold \<open>..\<close> components, which
  pathlib keeps and the operating system resolves while it walks the path: \<open>walk\<close> is
  that resolution, with the directories passed on the way kept on a stack (\<open>..\<close> at the
  root stays at the root). A name of more than \<open>NAME_MAX\<close> bytes looked up in a directory
  is the error \<open>ENAMETOOLONG\<close> (36), and so is a path of \<open>PATH_MAX\<close> bytes or more; a name
  looked up in a regular file or missing from a directory is \<open>ENOTDIR\<close> or \<open>ENOENT\<close>. The
  first error met decides. The paths the program builds itself have no \<open>..\<close> component
  and only short names, and are looked up directly. The file system has no permissions,
  so no lookup is refused.
\<close>

datatype resolved = Found node | Absent | Name_too_long

definition NAME_MAX :: nat where
  "NAME_MAX = 255"

definition PATH_MAX :: nat where
  "PATH_MAX = 4096"

fun walk :: "node list \<Rightarrow> node \<Rightarrow> path \<Rightarrow> resolved" where
  "walk stk n [] = Found n"
| "walk stk (File b) (c # cs) = Absent"
| "walk stk (Dir es) (c # cs) =
     (if c = ''..'' then
        (case stk of
           [] \<Rightarrow> walk [] (Dir es) cs
         | up # ups \<Rightarrow> walk ups up cs)
      else if NAME_MAX < length c then Name_too_long
      else (case map_of es c of
              None \<Rightarrow> Absent
            | Some x \<Rightarrow> walk (Dir es # stk) x cs))"

definition os_stat :: "node \<Rightarrow> path \<Rightarrow> resolved" where
  "os_stat fs p = (if PATH_MAX \<le> length (str_path p) then Name_too_long else walk [] fs p)"

text \<open>
  \<open>Path.exists\<close> and \<open>Path.is_file\<close> of pathlib (CPython 3.13 and earlier) call \<open>stat\<close> and
  answer \<open>False\<close> for the errors \<open>ENOENT\<close>, \<open>ENOTDIR\<close>, \<open>EBADF\<close> and \<open>ELOOP\<close> only: any
  other \<open>OSError\<close> is raised again. \<open>os.path.isfile\<close> answers \<open>False\<close> for every
  \<open>OSError\<close>.
\<close>

definition Path_exists :: "node \<Rightarrow> path \<Rightarrow> exn + bool" where
  "Path_exists fs p =
     (case os_stat fs p of
        Found n \<Rightarrow> Inr True
      | Absent \<Rightarrow> Inr False
      | Name_too_long \<Rightarrow> Inl (OSError 36 (str_path p)))"

definition Path_is_file :: "node \<Rightarrow> path \<Rightarrow> exn + bool" where
  "Path_is_file fs p =
     (case os_stat fs p of
        Found (File b) \<Rightarrow> Inr True
      | Found (Dir es) \<Rightarrow> Inr False
      | Absent \<Rightarrow> Inr False
      | Name_too_long \<Rightarrow> Inl (OSError 36 (str_path p)))"

definition isfile :: "node \<Rightarrow> path \<Rightarrow> bool" where
  "isfile fs p = (case os_stat fs p of Found (File b) \<Rightarrow> True | _ \<Rightarrow> False)"

section \<open>The environment\<close>

text \<open>
  What the program does not decide itself: where it is installed (\<open>BASE_DIR\<close>), the
  interpreter (\<open>sys.executable\<close>), the token \<open>uuid.uuid4().hex\<close> of the request, and the
  two external tools.

  \<open>subprocess.run\<close> either raises (the program cannot be started, its output cannot be
  decoded) or completes with a return code and the two captured streams. The tools are
  taken at their interface: the separation tool writes below the directory given to it
  with \<open>-o\<close>, and \<open>demucs_proc\<close> gives, with the outcome of the call, the entries of that
  directory afterwards; the mixing tool writes the file named last on its command line,
  and \<open>ffmpeg_proc\<close> gives the bytes it wrote, if any. Both may depend on the command
  line and on the file system they find.
\<close>

datatype proc = Raised exn | Completed int string string

record env =
  base_dir :: path
  executable :: string
  uuid4_hex :: string
  demucs_proc :: "string list \<Rightarrow> node \<Rightarrow> proc \<times> (string \<times> node) list"
  ffmpeg_proc :: "string list \<Rightarrow> node \<Rightarrow> proc \<times> string option"
  exn_text :: "exn \<Rightarrow> string"

definition UPLOADS :: "env \<Rightarrow> path" where
  "UPLOADS e = base_dir e @ [''uploads'']"

definition OUTPUTS :: "env \<Rightarrow> path" where
  "OUTPUTS e = base_dir e @ [''outputs'']"

text \<open>
  \<open>str(e)\<close>: the message of a \<open>RuntimeError\<close>; the text of the other exceptions is the
  interpreter's.
\<close>

fun str_exn :: "env \<Rightarrow> exn \<Rightarrow> string" where
  "str_exn e (RuntimeError m) = m"
| "str_exn e x = exn_text e x"

text \<open>The effect of the separation tool on its output directory, which it creates.\<close>

definition tool_writes_dir :: "node \<Rightarrow> path \<Rightarrow> (string \<times> node) list \<Rightarrow> node" where
  "tool_writes_dir fs d listing =
     (case mkdir_p fs d of
        Inl e \<Rightarrow> fs
      | Inr fs' \<Rightarrow> update_at d (\<lambda>_. Some (Dir listing)) fs')"

text \<open>The effect of the mixing tool on its output file, where it can be written.\<close>

definition tool_writes_file :: "node \<Rightarrow> path \<Rightarrow> string option \<Rightarrow> node" where
  "tool_writes_file fs p written =
     (case written of
        None \<Rightarrow> fs
      | Some b \<Rightarrow> (case write_file fs p b of Inl e \<Rightarrow> fs | Inr fs' \<Rightarrow> fs'))"

section \<open>The program\<close>

subsection \<open>\<open>outputs_serve\<close>\<close>

text \<open>
  Werkzeug's \<open>send_from_directory\<close>, called with a file name of one component:
  \<open>safe_join\<close> refuses \<open>..\<close>, and what \<open>os.path.isfile\<close> does not find is answered with
  the not-found page. The file is sent whole, as to a request without conditional or
  range headers.
\<close>

definition send_from_directory :: "node \<Rightarrow> path \<Rightarrow> string \<Rightarrow> response" where
  "send_from_directory fs directory filename =
     (if filename = ''..'' then NotFound_page
      else if \<not> isfile fs (directory @ [filename]) then NotFound_page
      else (case os_stat fs (directory @ [filename]) of
              Found (File b) \<Rightarrow> File_response b
            | _ \<Rightarrow> NotFound_page))"

text \<open>
  \<open>full.exists()\<close> and \<open>full.is_file()\<close> are asked of the operating system, which resolves
  the path; an exception of either escapes the handler. \<open>os.path.split\<close> of a path
  without trailing slash gives the path without its last component, and that component.
\<close>

definition outputs_serve :: "env \<Rightarrow> node \<Rightarrow> string \<Rightarrow> response" where
  "outputs_serve e fs subpath =
     (let full = truediv (OUTPUTS e) subpath
      in (case Path_exists fs full of
            Inl x \<Rightarrow> Unhandled x
          | Inr found \<Rightarrow>
              if \<not> found then Json_response 404 (detail ''File not found.'')
              else (case Path_is_file fs full of
                      Inl x \<Rightarrow> Unhandled x
                    | Inr regular \<Rightarrow>
                        if \<not> regular then Json_response 404 (detail ''File not found.'')
                        else send_from_directory fs (butlast full) (name full))))"

subsection \<open>\<open>_ffmpeg_exists\<close>\<close>

text \<open>Only \<open>FileNotFoundError\<close> is caught; the return code is not looked at.\<close>

definition ffmpeg_exists :: "env \<Rightarrow> node \<Rightarrow> exn + bool" where
  "ffmpeg_exists e fs =
     (case fst (ffmpeg_proc e [''ffmpeg'', ''-version''] fs) of
        Raised (FileNotFoundError f) \<Rightarrow> Inr False
      | Raised x \<Rightarrow> Inl x
      | Completed rc out err \<Rightarrow> Inr True)"

subsection \<open>\<open>run_demucs\<close>\<close>

definition demucs_cmd :: "env \<Rightarrow> path \<Rightarrow> path \<Rightarrow> string list" where
  "demucs_cmd e input_path out_dir =
     [executable e, ''-m'', ''demucs'', ''-n'', ''htdemucs'', ''-o'', str_path out_dir,
      str_path input_path]"

definition demucs_failed :: "string list \<Rightarrow> string \<Rightarrow> string \<Rightarrow> string" where
  "demucs_failed cmd out err =
     ''Demucs failed.'' @ [CHR 0x0A, CHR 0x0A] @
     ''Command: '' @ join '' '' cmd @ [CHR 0x0A, CHR 0x0A] @
     ''STDOUT:'' @ [CHR 0x0A] @ out @ [CHR 0x0A, CHR 0x0A] @ ''STDERR:'' @ [CHR 0x0A] @ err"

text \<open>
  The result is the exception raised or the path returned, with the file system the tool
  leaves behind.
\<close>

definition run_demucs :: "env \<Rightarrow> node \<Rightarrow> path \<Rightarrow> path \<Rightarrow> (exn + path) \<times> node" where
  "run_demucs e fs input_path out_dir =
     (let cmd = demucs_cmd e input_path out_dir;
          r = demucs_proc e cmd fs;
          fs' = tool_writes_dir fs out_dir (snd r)
      in (case fst r of
            Raised x \<Rightarrow> (Inl x, fs')
          | Completed rc out err \<Rightarrow>
              if rc \<noteq> 0 then (Inl (RuntimeError (demucs_failed cmd out err)), fs')
              else
                (let model_dir = out_dir @ [''htdemucs'']
                 in if \<not> exists fs' model_dir
                    then (Inl (RuntimeError ''Demucs output not found.''), fs')
                    else (case iterdir fs' model_dir of
                            Inl x \<Rightarrow> (Inl x, fs')
                          | Inr ps \<Rightarrow>
                              (case filter (is_dir fs') ps of
                                 [] \<Rightarrow>
                                   (Inl (RuntimeError ''Demucs didn't produce a track folder.''),
                                    fs')
                               | c # cs \<Rightarrow> (Inr c, fs'))))))"

subsection \<open>\<open>make_instrumental\<close>\<close>

definition ffmpeg_cmd :: "path \<Rightarrow> path \<Rightarrow> path \<Rightarrow> path \<Rightarrow> string list" where
  "ffmpeg_cmd drums bass other instrumental_out =
     [''ffmpeg'', ''-y'', ''-i'', str_path drums, ''-i'', str_path bass, ''-i'', str_path other,
      ''-filter_complex'', ''amix=inputs=3:normalize=0'', str_path instrumental_out]"

definition make_instrumental ::
  "env \<Rightarrow> node \<Rightarrow> path \<Rightarrow> path \<Rightarrow> path \<Rightarrow> path \<Rightarrow> (exn + unit) \<times> node" where
  "make_instrumental e fs drums bass other instrumental_out =
     (case ffmpeg_exists e fs of
        Inl x \<Rightarrow> (Inl x, fs)
      | Inr True \<Rightarrow>
          (let r = ffmpeg_proc e (ffmpeg_cmd drums bass other instrumental_out) fs;
               fs' = tool_writes_file fs instrumental_out (snd r)
           in (case fst r of
                 Raised x \<Rightarrow> (Inl x, fs')
               | Completed rc out err \<Rightarrow>
                   if rc \<noteq> 0 then
                     (case copy2 fs' other instrumental_out of
                        Inl x \<Rightarrow> (Inl x, fs')
                      | Inr fs'' \<Rightarrow> (Inr (), fs''))
                   else (Inr (), fs')))
      | Inr False \<Rightarrow>
          (case copy2 fs other instrumental_out of
             Inl x \<Rightarrow> (Inl x, fs)
           | Inr fs' \<Rightarrow> (Inr (), fs')))"

subsection \<open>\<open>upload\<close>\<close>

text \<open>
  The uploaded file as the handler sees it: \<open>request.files.get("file")\<close> is \<open>None\<close> when the
  form has no such field; a \<open>FileStorage\<close> with an empty name is false.
\<close>

record file_storage =
  filename :: string
  content :: string

definition allowed :: "string list" where
  "allowed = [''.mp3'', ''.wav'', ''.m4a'', ''.flac'', ''.ogg'', ''.aac'']"

text \<open>The dictionary of the last \<open>return\<close> of the \<open>try\<close>.\<close>

definition urls :: "string \<Rightarrow> string \<Rightarrow> string \<Rightarrow> json" where
  "urls uid ext base =
     JObject
       [(''id'', JString uid),
        (''original'', JString (''/outputs/'' @ uid @ ''/original'' @ ext)),
        (''vocals'', JString (base @ ''/vocals.wav'')),
        (''instrumental'', JString (base @ ''/instrumental.wav'')),
        (''drums'', JString (base @ ''/drums.wav'')),
        (''bass'', JString (base @ ''/bass.wav'')),
        (''other'', JString (base @ ''/other.wav''))]"

text \<open>The loop over the four stems: the first one missing raises.\<close>

fun check_stems :: "node \<Rightarrow> path list \<Rightarrow> exn option" where
  "check_stems fs [] = None"
| "check_stems fs (p # ps) =
     (if \<not> exists fs p then Some (RuntimeError (''Missing expected stem: '' @ name p))
      else check_stems fs ps)"

text \<open>
  The body of the \<open>try\<close>: the exception raised or the response returned, with the file
  system at that moment.
\<close>

definition job ::
  "env \<Rightarrow> node \<Rightarrow> string \<Rightarrow> string \<Rightarrow> path \<Rightarrow> path \<Rightarrow> (exn + response) \<times> node" where
  "job e fs uid ext input_path job_dir =
     (case run_demucs e fs input_path job_dir of
        (Inl x, fs1) \<Rightarrow> (Inl x, fs1)
      | (Inr out_subdir, fs1) \<Rightarrow>
          (let vocals = out_subdir @ [''vocals.wav''];
               drums = out_subdir @ [''drums.wav''];
               bass = out_subdir @ [''bass.wav''];
               other = out_subdir @ [''other.wav'']
           in (case check_stems fs1 [vocals, drums, bass, other] of
                 Some x \<Rightarrow> (Inl x, fs1)
               | None \<Rightarrow>
                   (let instrumental = out_subdir @ [''instrumental.wav'']
                    in (case make_instrumental e fs1 drums bass other instrumental of
                          (Inl x, fs2) \<Rightarrow> (Inl x, fs2)
                        | (Inr u, fs2) \<Rightarrow>
                            (let original_copy = job_dir @ [''original'' @ ext]
                             in (case copy2 fs2 input_path original_copy of
                                   Inl x \<Rightarrow> (Inl x, fs2)
                                 | Inr fs3 \<Rightarrow>
                                     (case relative_to out_subdir (OUTPUTS e) of
                                        Inl x \<Rightarrow> (Inl x, fs3)
                                      | Inr rel \<Rightarrow>
                                          (let base = ''/outputs/'' @ as_posix rel
                                           in (Inr (Json_response 200 (urls uid ext base)),
                                               fs3))))))))))"

text \<open>
  The handler. Saving the upload and creating the job directory come before the \<open>try\<close>:
  an exception there escapes the handler. An exception of the body is answered with
  status 500 after \<open>rmtree\<close> of the job directory.
\<close>

definition upload :: "env \<Rightarrow> node \<Rightarrow> file_storage option \<Rightarrow> response \<times> node" where
  "upload e fs file =
     (case file of
        None \<Rightarrow> (Json_response 400 (detail ''No file uploaded.''), fs)
      | Some f \<Rightarrow>
          if filename f = [] then (Json_response 400 (detail ''No file uploaded.''), fs)
          else
            (let ext = lower (snd (splitext (filename f)))
             in if ext \<notin> set allowed
                then (Json_response 400 (detail ''Unsupported file format.''), fs)
                else
                  (let uid = uuid4_hex e;
                       input_path = UPLOADS e @ [uid @ ext]
                   in (case write_file fs input_path (content f) of
                         Inl x \<Rightarrow> (Unhandled x, fs)
                       | Inr fs1 \<Rightarrow>
                           (let job_dir = OUTPUTS e @ [uid]
                            in (case mkdir fs1 job_dir of
                                  Inl x \<Rightarrow> (Unhandled x, fs1)
                                | Inr fs2 \<Rightarrow>
                                    (case job e fs2 uid ext input_path job_dir of
                                       (Inr resp, fs3) \<Rightarrow> (resp, fs3)
                                     | (Inl x, fs3) \<Rightarrow>
                                         (Json_response 500 (detail (str_exn e x)),
                                          rmtree fs3 job_dir))))))))"

subsection \<open>\<open>health\<close>\<close>

text \<open>
  The check of the separation tool catches every exception; the check of the mixing tool
  is \<open>_ffmpeg_exists\<close>, outside the \<open>try\<close>.
\<close>

definition health :: "env \<Rightarrow> node \<Rightarrow> response" where
  "health e fs =
     (let demucs_ok =
            (case fst (demucs_proc e [executable e, ''-m'', ''demucs'', ''-h''] fs) of
               Raised x \<Rightarrow> False
             | Completed rc out err \<Rightarrow> rc = 0)
      in (case ffmpeg_exists e fs of
            Inl x \<Rightarrow> Unhandled x
          | Inr ffmpeg_ok \<Rightarrow>
              Json_response 200
                (JObject [(''status'', JString ''ok''), (''demucs'', JBool demucs_ok),
                          (''ffmpeg'', JBool ffmpeg_ok)])))"

section \<open>Examples\<close>

text \<open>
  A small installation, used to run the handlers on concrete requests: the program lives
  in \<open>/srv/app\<close>, one earlier upload is on disk, and the behaviour of the tools is given
  by the three arguments (the separation tool's outcome and output, the outcome of
  \<open>ffmpeg -version\<close>, and the outcome and output of the mixing call).
\<close>

definition example_fs :: node where
  "example_fs =
     Dir [(''srv'', Dir [(''app'', Dir
       [(''uploads'', Dir [(''old.mp3'', File ''OLD'')]),
        (''outputs'', Dir []),
        (''static'', Dir [(''index.html'', File ''<html></html>'')])])])]"

definition example_stems :: "(string \<times> node) list" where
  "example_stems =
     [(''htdemucs'', Dir [(''song'', Dir
        [(''vocals.wav'', File ''V''), (''drums.wav'', File ''D''),
         (''bass.wav'', File ''B''), (''other.wav'', File ''O'')])])]"

definition example_env ::
  "proc \<times> (string \<times> node) list \<Rightarrow> proc \<Rightarrow> proc \<times> string option \<Rightarrow> env" where
  "example_env separation version mix =
     \<lparr>base_dir = [''srv'', ''app''],
      executable = ''/usr/bin/python3'',
      uuid4_hex = ''0f8fad5bd9cb469fa16570867728950e'',
      demucs_proc = (\<lambda>cmd fs. separation),
      ffmpeg_proc = (\<lambda>cmd fs. if cmd = [''ffmpeg'', ''-version''] then (version, None) else mix),
      exn_text = (\<lambda>x. ''error'')\<rparr>"

text \<open>Both tools work.\<close>

definition example_ok :: env where
  "example_ok =
     example_env (Completed 0 [] [], example_stems) (Completed 0 [] [])
       (Completed 0 [] [], Some ''MIX'')"

text \<open>The separation tool exits with code 1 and writes nothing.\<close>

definition example_failing :: env where
  "example_failing =
     example_env (Completed 1 [] ''out of memory'', []) (Completed 0 [] [])
       (Completed 0 [] [], Some ''MIX'')"

text \<open>The separation tool succeeds but leaves out the drums and the bass.\<close>

definition example_partial :: env where
  "example_partial =
     example_env
       (Completed 0 [] [],
        [(''htdemucs'', Dir [(''song'', Dir
           [(''vocals.wav'', File ''V''), (''other.wav'', File ''O'')])])])
       (Completed 0 [] []) (Completed 0 [] [], Some ''MIX'')"

text \<open>The mixing tool is not installed.\<close>

definition example_no_ffmpeg :: env where
  "example_no_ffmpeg =
     example_env (Completed 0 [] [], example_stems) (Raised (FileNotFoundError ''ffmpeg''))
       (Raised (FileNotFoundError ''ffmpeg''), None)"

text \<open>
  The mixing tool is installed but cannot run (a shared library is missing): every call
  exits with code 127.
\<close>

definition example_broken_ffmpeg :: env where
  "example_broken_ffmpeg =
     example_env (Completed 0 [] [], example_stems)
       (Completed 127 [] ''ffmpeg: error while loading shared libraries'')
       (Completed 127 [] ''ffmpeg: error while loading shared libraries'', None)"

text \<open>The mixing tool is installed but may not be executed.\<close>

definition example_ffmpeg_denied :: env where
  "example_ffmpeg_denied =
     example_env (Completed 0 [] [], example_stems) (Raised (OtherException ''PermissionError''))
       (Raised (OtherException ''PermissionError''), None)"

text \<open>
  The mixing tool is not installed, and the separation tool leaves a directory where the
  \<open>other\<close> stem should be.
\<close>

definition example_stems_dir :: "(string \<times> node) list" where
  "example_stems_dir =
     [(''htdemucs'', Dir [(''song'', Dir
        [(''vocals.wav'', File ''V''), (''drums.wav'', File ''D''),
         (''bass.wav'', File ''B''), (''other.wav'', Dir [])])])]"

definition example_other_dir :: env where
  "example_other_dir =
     example_env (Completed 0 [] [], example_stems_dir) (Raised (FileNotFoundError ''ffmpeg''))
       (Raised (FileNotFoundError ''ffmpeg''), None)"

definition example_separated_dir :: node where
  "example_separated_dir =
     Dir [(''srv'', Dir [(''app'', Dir
       [(''uploads'', Dir [(''old.mp3'', File ''OLD''),
                           (''0f8fad5bd9cb469fa16570867728950e.mp3'', File ''RIFF'')]),
        (''outputs'', Dir [(''0f8fad5bd9cb469fa16570867728950e'', Dir example_stems_dir)]),
        (''static'', Dir [(''index.html'', File ''<html></html>'')])])])]"

text \<open>
  The mixing call exits with an error after writing bytes to its error stream that are
  not UTF-8: \<open>subprocess.run\<close> with \<open>text=True\<close> raises \<open>UnicodeDecodeError\<close>. The version
  query, whose streams are not decoded, completes.
\<close>

definition example_ffmpeg_garbled :: env where
  "example_ffmpeg_garbled =
     example_env (Completed 0 [] [], example_stems) (Completed 0 [] [])
       (Raised (OtherException ''UnicodeDecodeError''), None)"

text \<open>The file system of the example after the upload and a successful separation.\<close>

definition example_separated :: node where
  "example_separated =
     Dir [(''srv'', Dir [(''app'', Dir
       [(''uploads'', Dir [(''old.mp3'', File ''OLD''),
                           (''0f8fad5bd9cb469fa16570867728950e.mp3'', File ''RIFF'')]),
        (''outputs'', Dir [(''0f8fad5bd9cb469fa16570867728950e'', Dir example_stems)]),
        (''static'', Dir [(''index.html'', File ''<html></html>'')])])])]"

definition example_track :: path where
  "example_track =
     [''srv'', ''app'', ''outputs'', ''0f8fad5bd9cb469fa16570867728950e'', ''htdemucs'', ''song'']"

definition example_file :: "string \<Rightarrow> file_storage" where
  "example_file n = \<lparr>filename = n, content = ''RIFF''\<rparr>"

definition example_song :: file_storage where
  "example_song = example_file ''Song.MP3''"

section \<open>Properties of the file system\<close>

text \<open>
  \<open>untouched d fs fs'\<close>: whatever is neither at or below \<open>d\<close> nor on the way to \<open>d\<close> is the
  same in \<open>fs'\<close> as in \<open>fs\<close>.
\<close>

definition untouched :: "path \<Rightarrow> node \<Rightarrow> node \<Rightarrow> bool" where
  "untouched d fs fs' = (\<forall>p. \<not> prefix p d \<longrightarrow> \<not> prefix d p \<longrightarrow> lookup fs' p = lookup fs p)"

lemma untouched_refl: "untouched d fs fs"
  by (simp add: untouched_def)

lemma untouched_trans: "untouched d fs fs1 \<Longrightarrow> untouched d fs1 fs2 \<Longrightarrow> untouched d fs fs2"
  by (simp add: untouched_def)

lemma untouched_below: "prefix d q \<Longrightarrow> untouched q fs fs' \<Longrightarrow> untouched d fs fs'"
  unfolding untouched_def
  by (metis prefix_order.trans prefix_same_cases)

lemma lookup_append:
  "lookup n (p @ q) = (case lookup n p of None \<Rightarrow> None | Some x \<Rightarrow> lookup x q)"
proof (induction n p rule: lookup.induct)
  case (1 n)
  then show ?case by simp
next
  case (2 b c cs)
  then show ?case by simp
next
  case (3 es c cs)
  then show ?case by (simp split: option.splits)
qed

lemma lookup_update_at_diverge:
  "\<not> prefix p q \<Longrightarrow> \<not> prefix q p \<Longrightarrow> lookup (update_at q f n) p = lookup n p"
proof (induction q f n arbitrary: p rule: update_at.induct)
  case (1 f n)
  then show ?case by simp
next
  case (2 c cs f b)
  then show ?case by simp
next
  case (3 c f es)
  then show ?case
    by (cases p) (auto simp: update_conv delete_conv split: option.splits)
next
  case (4 c d cs f es)
  then show ?case
    by (cases p) (auto simp: update_conv split: option.splits)
qed

lemma untouched_update_at: "untouched q fs (update_at q f fs)"
  by (simp add: untouched_def lookup_update_at_diverge)

lemma lookup_update_at_same:
  "q \<noteq> [] \<Longrightarrow> lookup n (butlast q) = Some (Dir es) \<Longrightarrow>
   lookup (update_at q f n) q = f (lookup n q)"
proof (induction q f n arbitrary: es rule: update_at.induct)
  case (1 f n)
  then show ?case by simp
next
  case (2 c cs f b)
  then show ?case by (cases cs) auto
next
  case (3 c f es)
  then show ?case
    by (auto simp: update_conv delete_conv split: option.splits)
next
  case (4 c d cs f es)
  then show ?case
    by (auto simp: update_conv split: option.splits)
qed

lemma update_at_keeps_dir:
  "lookup n d = Some (Dir es) \<Longrightarrow> \<exists>es'. lookup (update_at (d @ c # r) f n) d = Some (Dir es')"
proof (induction d arbitrary: n es)
  case Nil
  then show ?case by (cases r) (auto split: option.splits)
next
  case (Cons a d)
  then show ?case
    by (cases n; cases "d @ c # r") (auto simp: update_conv split: option.splits)
qed

lemma mkdir_p_untouched: "mkdir_p n q = Inr n' \<Longrightarrow> untouched q n n'"
  unfolding untouched_def
proof (induction n q arbitrary: n' rule: mkdir_p.induct)
  case (1 b)
  then show ?case by simp
next
  case (2 es)
  then show ?case by simp
next
  case (3 b c cs)
  then show ?case by simp
next
  case (4 es c cs)
  show ?case
  proof (intro allI impI)
    fix p assume p: "\<not> prefix p (c # cs)" "\<not> prefix (c # cs) p"
    from 4(2) obtain x where x: "mkdir_p (case map_of es c of None \<Rightarrow> Dir [] | Some x \<Rightarrow> x) cs = Inr x"
      and n': "n' = Dir (AList.update c x es)"
      by (auto split: sum.splits)
    from p obtain a ps where ps: "p = a # ps" by (cases p) auto
    show "lookup n' p = lookup (Dir es) p"
    proof (cases "a = c")
      case True
      with p ps have d: "\<not> prefix ps cs" "\<not> prefix cs ps" by auto
      have "lookup x ps = lookup (case map_of es c of None \<Rightarrow> Dir [] | Some x \<Rightarrow> x) ps"
        using 4(1)[OF x] d by blast
      moreover have "ps \<noteq> []" using d by auto
      ultimately show ?thesis using True ps n'
        by (cases ps) (auto simp: update_conv split: option.splits)
    next
      case False
      then show ?thesis using ps n' by (simp add: update_conv)
    qed
  qed
qed

lemma mkdir_p_is_dir:
  "mkdir_p n (p @ q) = Inr n' \<Longrightarrow> \<exists>es. lookup n' p = Some (Dir es)"
proof (induction p arbitrary: n n')
  case Nil
  then show ?case by (cases n; cases q) (auto split: sum.splits)
next
  case (Cons a p)
  then show ?case
    by (cases n) (auto simp: update_conv split: sum.splits)
qed


lemma lookup_parent_dir:
  "lookup n (p @ c # r) = Some x \<Longrightarrow> \<exists>es. lookup n p = Some (Dir es)"
proof (induction p arbitrary: n)
  case Nil
  then show ?case by (cases n) auto
next
  case (Cons a p)
  then show ?case by (cases n) (auto split: option.splits)
qed

lemma write_file_untouched: "write_file fs q b = Inr fs' \<Longrightarrow> untouched q fs fs'"
  by (auto simp: write_file_def untouched_update_at
           split: if_splits option.splits node.splits)

lemma write_file_lookup: "write_file fs q b = Inr fs' \<Longrightarrow> lookup fs' q = Some (File b)"
  by (auto simp: write_file_def lookup_update_at_same
           split: if_splits option.splits node.splits)

lemma write_file_keeps_dir:
  "write_file fs (d @ c # r) b = Inr fs' \<Longrightarrow> is_dir fs d \<Longrightarrow> is_dir fs' d"
proof -
  assume w: "write_file fs (d @ c # r) b = Inr fs'" and d: "is_dir fs d"
  from d obtain es where es: "lookup fs d = Some (Dir es)"
    by (auto simp: is_dir_def split: option.splits node.splits)
  from w have "fs' = update_at (d @ c # r) (\<lambda>_. Some (File b)) fs"
    by (auto simp: write_file_def split: if_splits option.splits node.splits)
  moreover obtain es' where
    "lookup (update_at (d @ c # r) (\<lambda>_. Some (File b)) fs) d = Some (Dir es')"
    using update_at_keeps_dir[OF es] by blast
  ultimately show ?thesis
    by (simp add: is_dir_def)
qed

lemma copy2_untouched: "copy2 fs src dst = Inr fs' \<Longrightarrow> untouched dst fs fs'"
proof -
  assume c: "copy2 fs src dst = Inr fs'"
  then obtain b dst' where "write_file fs dst' b = Inr fs'" and "prefix dst dst'"
    by (auto simp: copy2_def Let_def split: if_splits sum.splits)
  then show ?thesis
    using untouched_below write_file_untouched by blast
qed

lemma copy2_keeps_dir:
  "copy2 fs src (d @ c # r) = Inr fs' \<Longrightarrow> is_dir fs d \<Longrightarrow> is_dir fs' d"
proof -
  assume c: "copy2 fs src (d @ c # r) = Inr fs'" and d: "is_dir fs d"
  then obtain b r' where "write_file fs (d @ c # r') b = Inr fs'"
    by (auto simp: copy2_def Let_def split: if_splits sum.splits)
  then show ?thesis using d by (rule write_file_keeps_dir)
qed

lemma rmtree_untouched: "untouched p fs (rmtree fs p)"
  by (simp add: rmtree_def untouched_update_at untouched_refl)

lemma rmtree_gone:
  assumes "is_dir fs p" and "p \<noteq> []"
  shows "lookup (rmtree fs p) (p @ q) = None"
proof -
  from assms(2) obtain p' c where p: "p = p' @ [c]"
    by (cases p rule: rev_cases) auto
  from assms(1) obtain x where "lookup fs (p' @ c # []) = Some x"
    by (auto simp: is_dir_def p split: option.splits)
  then obtain es where "lookup fs p' = Some (Dir es)"
    using lookup_parent_dir by blast
  then have "lookup (update_at p (\<lambda>_. None) fs) p = None"
    using lookup_update_at_same[of p fs es "\<lambda>_. None"] by (simp add: p)
  with assms(1) show ?thesis
    by (simp add: rmtree_def lookup_append)
qed

lemma tool_writes_dir_untouched: "untouched d fs (tool_writes_dir fs d l)"
proof (cases "mkdir_p fs d")
  case (Inl a)
  then show ?thesis by (simp add: tool_writes_dir_def untouched_refl)
next
  case (Inr fs')
  then show ?thesis
    using mkdir_p_untouched[OF Inr] untouched_update_at[of d fs']
    by (auto simp: tool_writes_dir_def intro: untouched_trans)
qed

lemma tool_writes_dir_keeps_dir:
  assumes "is_dir fs d" and "d \<noteq> []"
  shows "is_dir (tool_writes_dir fs d l) d"
proof (cases "mkdir_p fs d")
  case (Inl a)
  with assms show ?thesis by (simp add: tool_writes_dir_def)
next
  case (Inr fs')
  from assms(2) obtain d' c where d: "d = d' @ [c]"
    by (cases d rule: rev_cases) auto
  from Inr obtain es where "lookup fs' d' = Some (Dir es)"
    using mkdir_p_is_dir[of fs d' "[c]" fs'] by (auto simp: d)
  then have "lookup (update_at d (\<lambda>_. Some (Dir l)) fs') d = Some (Dir l)"
    using lookup_update_at_same[of d fs' es] by (simp add: d)
  with Inr show ?thesis by (simp add: tool_writes_dir_def is_dir_def)
qed

lemma tool_writes_file_untouched: "untouched p fs (tool_writes_file fs p w)"
  by (auto simp: tool_writes_file_def untouched_refl write_file_untouched
           split: option.splits sum.splits)

lemma tool_writes_file_keeps_dir:
  "is_dir fs d \<Longrightarrow> is_dir (tool_writes_file fs (d @ c # r) w) d"
  by (auto simp: tool_writes_file_def write_file_keeps_dir split: option.splits sum.splits)


lemma run_demucs_snd:
  "snd (run_demucs e fs i d) = tool_writes_dir fs d (snd (demucs_proc e (demucs_cmd e i d) fs))"
  by (simp add: run_demucs_def Let_def split: proc.splits sum.splits list.splits)

lemma run_demucs_Inr:
  assumes "run_demucs e fs i d = (Inr sub, fs')"
  shows "\<exists>c. sub = d @ [''htdemucs'', c] \<and> is_dir fs' sub"
proof -
  from assms obtain ps cs where ps: "iterdir fs' (d @ [''htdemucs'']) = Inr ps"
    and f: "filter (is_dir fs') ps = sub # cs"
    by (auto simp: run_demucs_def Let_def split: proc.splits sum.splits list.splits if_splits)
  from f have "sub \<in> set (filter (is_dir fs') ps)" by simp
  then have "sub \<in> set ps" and "is_dir fs' sub" by auto
  moreover from ps have "\<forall>p \<in> set ps. \<exists>c. p = d @ [''htdemucs'', c]"
    by (auto simp: iterdir_def split: option.splits node.splits)
  ultimately show ?thesis by blast
qed

lemma make_instrumental_untouched:
  "make_instrumental e fs dr ba ot out = (r, fs') \<Longrightarrow> untouched out fs fs'"
  by (auto simp: make_instrumental_def Let_def untouched_refl tool_writes_file_untouched
           split: sum.splits bool.splits proc.splits if_splits
           intro: copy2_untouched untouched_trans[OF tool_writes_file_untouched copy2_untouched])

lemma make_instrumental_keeps_dir:
  "make_instrumental e fs dr ba ot (d @ c # q) = (r, fs') \<Longrightarrow> is_dir fs d \<Longrightarrow> is_dir fs' d"
  by (auto simp: make_instrumental_def Let_def tool_writes_file_keeps_dir
           split: sum.splits bool.splits proc.splits if_splits
           intro: copy2_keeps_dir copy2_keeps_dir[OF _ tool_writes_file_keeps_dir])


lemma run_demucs_untouched: "run_demucs e fs i d = (r, fs') \<Longrightarrow> untouched d fs fs'"
  using run_demucs_snd[of e fs i d] by (simp add: tool_writes_dir_untouched)

lemma run_demucs_keeps_dir:
  "run_demucs e fs i d = (r, fs') \<Longrightarrow> is_dir fs d \<Longrightarrow> d \<noteq> [] \<Longrightarrow> is_dir fs' d"
  using run_demucs_snd[of e fs i d] by (simp add: tool_writes_dir_keeps_dir)

lemma job_effect:
  assumes "job e fs uid ext inp jd = (r, fs')"
  shows "untouched jd fs fs' \<and> (is_dir fs jd \<longrightarrow> jd \<noteq> [] \<longrightarrow> is_dir fs' jd) \<and>
         (\<forall>resp. r = Inr resp \<longrightarrow>
            (\<exists>c rel. relative_to (jd @ [''htdemucs'', c]) (OUTPUTS e) = Inr rel \<and>
               resp = Json_response 200 (urls uid ext (''/outputs/'' @ as_posix rel))))"
proof (cases "run_demucs e fs inp jd")
  case (Pair r1 fs1)
  note u1 = run_demucs_untouched[OF Pair]
  note k1 = run_demucs_keeps_dir[OF Pair]
  show ?thesis
  proof (cases r1)
    case (Inl x)
    with assms Pair u1 k1 show ?thesis by (auto simp: job_def)
  next
    case (Inr sub)
    then obtain c where sub: "sub = jd @ [''htdemucs'', c]"
      using run_demucs_Inr Pair by blast
    show ?thesis
    proof (cases "check_stems fs1 [sub @ [''vocals.wav''], sub @ [''drums.wav''],
                     sub @ [''bass.wav''], sub @ [''other.wav'']]")
      case (Some x)
      with assms Pair Inr u1 k1 show ?thesis by (auto simp: job_def)
    next
      case None
      obtain r2 fs2 where mi: "make_instrumental e fs1 (sub @ [''drums.wav''])
          (sub @ [''bass.wav'']) (sub @ [''other.wav'']) (sub @ [''instrumental.wav'']) = (r2, fs2)"
        by (cases "make_instrumental e fs1 (sub @ [''drums.wav''])
          (sub @ [''bass.wav'']) (sub @ [''other.wav'']) (sub @ [''instrumental.wav''])") auto
      have "untouched jd fs1 fs2"
        using make_instrumental_untouched[OF mi] untouched_below[of jd "sub @ [''instrumental.wav'']"]
        by (simp add: sub)
      with u1 have u2: "untouched jd fs fs2" by (rule untouched_trans)
      have k2: "is_dir fs jd \<Longrightarrow> jd \<noteq> [] \<Longrightarrow> is_dir fs2 jd"
        using make_instrumental_keeps_dir[of e fs1 _ _ _ jd "''htdemucs''" "[c, ''instrumental.wav'']"]
          mi k1 by (simp add: sub)
      show ?thesis
      proof (cases r2)
        case (Inl x)
        with assms Pair Inr None mi u2 k2 show ?thesis by (auto simp: job_def)
      next
        case r2: (Inr u)
        show ?thesis
        proof (cases "copy2 fs2 inp (jd @ [''original'' @ ext])")
          case (Inl x)
          with assms Pair Inr None mi r2 u2 k2 show ?thesis by (auto simp: job_def)
        next
          case c: (Inr fs3)
          have "untouched jd fs2 fs3"
            using copy2_untouched[OF c] untouched_below[of jd "jd @ [''original'' @ ext]"]
            by simp
          with u2 have u3: "untouched jd fs fs3" by (rule untouched_trans)
          have k3: "is_dir fs jd \<Longrightarrow> jd \<noteq> [] \<Longrightarrow> is_dir fs3 jd"
            using copy2_keeps_dir[of fs2 inp jd "''original'' @ ext" "[]" fs3] c k2 by simp
          have f: "fs' = fs3"
            using assms Pair Inr None mi r2 c
            by (auto simp: job_def Let_def split: sum.splits)
          have "\<forall>resp. r = Inr resp \<longrightarrow>
            (\<exists>rel. relative_to sub (OUTPUTS e) = Inr rel \<and>
               resp = Json_response 200 (urls uid ext (''/outputs/'' @ as_posix rel)))"
            using assms Pair Inr None mi r2 c
            by (auto simp: job_def Let_def split: sum.splits)
          with u3 k3 f show ?thesis unfolding sub by blast
        qed
      qed
    qed
  qed
qed


lemma mkdir_untouched: "mkdir fs p = Inr fs' \<Longrightarrow> untouched p fs fs'"
  by (auto simp: mkdir_def mkdir_p_untouched split: sum.splits)

lemma mkdir_is_dir: "mkdir fs p = Inr fs' \<Longrightarrow> is_dir fs' p"
  using mkdir_p_is_dir[of fs p "[]" fs']
  by (auto simp: mkdir_def is_dir_def split: sum.splits)

lemma upload_accepted:
  assumes "upload e fs file = (Json_response s b, fs')" and "s \<noteq> 400"
  obtains f ext fs1 fs2 r fs3 where
    "file = Some f" and "filename f \<noteq> []" and "ext = lower (snd (splitext (filename f)))"
    and "ext \<in> set allowed"
    and "write_file fs (UPLOADS e @ [uuid4_hex e @ ext]) (content f) = Inr fs1"
    and "mkdir fs1 (OUTPUTS e @ [uuid4_hex e]) = Inr fs2"
    and "job e fs2 (uuid4_hex e) ext (UPLOADS e @ [uuid4_hex e @ ext]) (OUTPUTS e @ [uuid4_hex e])
           = (r, fs3)"
    and "(r = Inr (Json_response s b) \<and> fs' = fs3) \<or>
         (\<exists>x. r = Inl x \<and> s = 500 \<and> b = detail (str_exn e x) \<and>
              fs' = rmtree fs3 (OUTPUTS e @ [uuid4_hex e]))"
  using assms
  by (auto simp: upload_def Let_def split: option.splits if_splits sum.splits prod.splits)

lemma upload_path_diverge:
  "\<not> prefix (UPLOADS e @ n # q) (OUTPUTS e @ [u])" "\<not> prefix (OUTPUTS e @ [u]) (UPLOADS e @ n # q)"
  by (simp_all add: UPLOADS_def OUTPUTS_def)

section \<open>Properties of the handlers\<close>

lemma upload_response_cases:
  "(\<exists>s b. fst (upload e fs file) = Json_response s b) \<or> (\<exists>x. fst (upload e fs file) = Unhandled x)"
proof -
  have "\<And>r fs2 fs3 resp u x i j. job e fs2 u x i j = (Inr resp, fs3) \<Longrightarrow> \<exists>s b. resp = Json_response s b"
    using job_effect by blast
  then show ?thesis
    by (auto simp: upload_def Let_def split: option.splits if_splits sum.splits prod.splits)
qed

lemma relative_to_outputs:
  "relative_to (OUTPUTS e @ u # q) (OUTPUTS e) = Inr (u # q)"
  by (simp add: relative_to_def)

lemma untouchedD:
  "untouched d fs fs' \<Longrightarrow> \<not> prefix p d \<Longrightarrow> \<not> prefix d p \<Longrightarrow> lookup fs' p = lookup fs p"
  by (simp add: untouched_def)

lemma upload_effect:
  assumes "upload e fs file = (resp, fs')"
  shows "fs' = fs \<or>
         (\<exists>f fs1. file = Some f \<and>
            write_file fs (UPLOADS e @ [uuid4_hex e @ lower (snd (splitext (filename f)))])
              (content f) = Inr fs1 \<and>
            untouched (OUTPUTS e @ [uuid4_hex e]) fs1 fs')"
proof -
  have j: "\<And>fs2 u x i jd r fs3. job e fs2 u x i jd = (r, fs3) \<Longrightarrow> untouched jd fs2 fs3"
    using job_effect by blast
  have m: "\<And>fs1 fs2 fs3 jd. mkdir fs1 jd = Inr fs2 \<Longrightarrow> untouched jd fs2 fs3 \<Longrightarrow> untouched jd fs1 fs3"
    using mkdir_untouched untouched_trans by blast
  have r: "\<And>fs1 fs3 jd. untouched jd fs1 fs3 \<Longrightarrow> untouched jd fs1 (rmtree fs3 jd)"
    using rmtree_untouched untouched_trans by blast
  from assms show ?thesis
    by (auto simp: upload_def Let_def untouched_refl
             split: option.splits if_splits sum.splits prod.splits
             dest!: j intro: m r)
qed

lemma upload_stored:
  assumes "upload e fs file = (Json_response s b, fs')" and "s \<noteq> 400"
  shows "\<exists>f. file = Some f \<and>
            lookup fs' (UPLOADS e @ [uuid4_hex e @ lower (snd (splitext (filename f)))]) =
              Some (File (content f))"
  using assms
proof (rule upload_accepted)
  fix f ext fs1 fs2 r fs3
  let ?jd = "OUTPUTS e @ [uuid4_hex e]"
  let ?inp = "UPLOADS e @ [uuid4_hex e @ ext]"
  assume f: "file = Some f" and ext: "ext = lower (snd (splitext (filename f)))"
    and w: "write_file fs ?inp (content f) = Inr fs1"
    and m: "mkdir fs1 ?jd = Inr fs2"
    and j: "job e fs2 (uuid4_hex e) ext ?inp ?jd = (r, fs3)"
    and r: "(r = Inr (Json_response s b) \<and> fs' = fs3) \<or>
         (\<exists>x. r = Inl x \<and> s = 500 \<and> b = detail (str_exn e x) \<and> fs' = rmtree fs3 ?jd)"
  from job_effect[OF j] have u: "untouched ?jd fs2 fs3" by simp
  with mkdir_untouched[OF m] have u3: "untouched ?jd fs1 fs3" by (rule untouched_trans)
  from r have "fs' = fs3 \<or> fs' = rmtree fs3 ?jd" by auto
  with u3 have "untouched ?jd fs1 fs'"
    using rmtree_untouched[of ?jd fs3] untouched_trans by blast
  then have "lookup fs' ?inp = lookup fs1 ?inp"
    using upload_path_diverge[where e=e and n="uuid4_hex e @ ext" and q="[]" and u="uuid4_hex e"]
    by (intro untouchedD) auto
  then have "lookup fs' ?inp = Some (File (content f))"
    using write_file_lookup[OF w] by simp
  with f ext show ?thesis by auto
qed


lemma write_file_ok:
  assumes "p \<noteq> []" and "is_dir fs (butlast p)" and "\<not> is_dir fs p"
  shows "\<exists>fs'. write_file fs p b = Inr fs'"
proof -
  from assms(2) obtain es where es: "lookup fs (butlast p) = Some (Dir es)"
    by (auto simp: is_dir_def split: option.splits node.splits)
  have "lookup fs (butlast p @ [last p]) = map_of es (last p)"
    by (simp add: lookup_append es split: option.splits)
  with assms(1,3) have "\<And>es'. map_of es (last p) \<noteq> Some (Dir es')"
    by (auto simp: is_dir_def)
  with assms(1) es show ?thesis
    by (auto simp: write_file_def split: option.splits node.splits)
qed

lemma upload_accepted_effect:
  assumes "filename f \<noteq> []" and "lower (snd (splitext (filename f))) \<in> set allowed"
    and "write_file fs (UPLOADS e @ [uuid4_hex e @ lower (snd (splitext (filename f)))])
           (content f) = Inr fs1"
  shows "untouched (OUTPUTS e @ [uuid4_hex e]) fs1 (snd (upload e fs (Some f)))"
proof -
  have j: "\<And>fs2 u x i jd r fs3. job e fs2 u x i jd = (r, fs3) \<Longrightarrow> untouched jd fs2 fs3"
    using job_effect by blast
  have m: "\<And>fs1 fs2 fs3 jd. mkdir fs1 jd = Inr fs2 \<Longrightarrow> untouched jd fs2 fs3 \<Longrightarrow> untouched jd fs1 fs3"
    using mkdir_untouched untouched_trans by blast
  have r: "\<And>fs1 fs3 jd. untouched jd fs1 fs3 \<Longrightarrow> untouched jd fs1 (rmtree fs3 jd)"
    using rmtree_untouched untouched_trans by blast
  from assms show ?thesis
    by (auto simp: upload_def Let_def untouched_refl
             split: option.splits if_splits sum.splits prod.splits
             dest!: j intro: m r)
qed

lemma check_stems_filter:
  "check_stems fs (map (\<lambda>n. sub @ [n]) ns) =
     (case filter (\<lambda>n. \<not> exists fs (sub @ [n])) ns of
        [] \<Rightarrow> None
      | m # ms \<Rightarrow> Some (RuntimeError (''Missing expected stem: '' @ m)))"
  by (induction ns) (auto simp: name_def)

lemma filter_children:
  "filter P (map (\<lambda>x. d @ [c, fst x]) es) =
     map (\<lambda>n. d @ [c, n]) (filter (\<lambda>n. P (d @ [c, n])) (map fst es))"
  by (induction es) auto

lemma walk_dotdot_not_file:
  assumes "\<forall>s \<in> set stk. \<exists>es. s = Dir es"
  shows "walk stk n (p @ [''..'']) \<noteq> Found (File b)"
  using assms
proof (induction stk n p rule: walk.induct)
  case (1 stk n)
  then show ?case by (cases n; cases stk) auto
next
  case (2 stk b c cs)
  then show ?case by simp
next
  case (3 stk es c cs)
  then show ?case
    by (auto split: list.splits option.splits)
qed

lemma outputs_serve_cases:
  "(os_stat fs (truediv (OUTPUTS e) subpath) = Name_too_long \<longrightarrow>
      outputs_serve e fs subpath =
        Unhandled (OSError 36 (str_path (truediv (OUTPUTS e) subpath)))) \<and>
   (os_stat fs (truediv (OUTPUTS e) subpath) = Absent \<longrightarrow>
      outputs_serve e fs subpath = Json_response 404 (detail ''File not found.'')) \<and>
   (\<forall>es. os_stat fs (truediv (OUTPUTS e) subpath) = Found (Dir es) \<longrightarrow>
      outputs_serve e fs subpath = Json_response 404 (detail ''File not found.'')) \<and>
   (\<forall>b. is_dir fs [] \<longrightarrow> os_stat fs (truediv (OUTPUTS e) subpath) = Found (File b) \<longrightarrow>
      outputs_serve e fs subpath = File_response b)"
proof (intro conjI allI impI)
  fix b
  let ?full = "truediv (OUTPUTS e) subpath"
  assume d: "is_dir fs []" and w: "os_stat fs ?full = Found (File b)"
  from w have wk: "walk [] fs ?full = Found (File b)"
    by (auto simp: os_stat_def split: if_splits)
  with d have ne: "?full \<noteq> []"
    by (auto simp: is_dir_def)
  then have f: "butlast ?full @ [name ?full] = ?full"
    by (simp add: name_def)
  have "name ?full \<noteq> ''..''"
  proof
    assume "name ?full = ''..''"
    with f have "walk [] fs (butlast ?full @ [''..'']) = Found (File b)"
      using wk by simp
    then show False
      using walk_dotdot_not_file[of "[]" fs "butlast ?full" b] by simp
  qed
  with w f show "outputs_serve e fs subpath = File_response b"
    by (simp add: outputs_serve_def send_from_directory_def Path_exists_def Path_is_file_def
          isfile_def Let_def)
qed (simp_all add: outputs_serve_def Path_exists_def Path_is_file_def Let_def)

lemma file_dir_diverge:
  assumes o: "lookup fs other = Some (File b)"
    and d: "is_dir fs (butlast out)" and ne: "out \<noteq> []"
    and nd: "\<not> is_dir fs out" and neq: "out \<noteq> other"
  shows "\<not> prefix other out \<and> \<not> prefix out other"
proof (intro conjI notI)
  assume "prefix other out"
  then obtain r where r: "out = other @ r" by (auto simp: prefix_def)
  with neq have rne: "r \<noteq> []" by auto
  then have "butlast out = other @ butlast r" by (simp add: r butlast_append)
  with d o show False
    by (cases "butlast r") (auto simp: is_dir_def lookup_append)
next
  assume "prefix out other"
  then obtain r where r: "other = out @ r" by (auto simp: prefix_def)
  with neq obtain c r' where "r = c # r'" by (cases r) auto
  with o r obtain es where "lookup fs out = Some (Dir es)"
    using lookup_parent_dir[of fs out c r'] by auto
  with nd show False by (simp add: is_dir_def)
qed

lemma copy2_fallback:
  assumes o: "lookup fs other = Some (File b)"
    and d: "is_dir fs (butlast out)" and ne: "out \<noteq> []"
    and nd: "\<not> is_dir fs out" and neq: "out \<noteq> other"
  shows "\<exists>fs'. copy2 fs other out = Inr fs' \<and> lookup fs' out = Some (File b) \<and>
           lookup fs' other = Some (File b)"
proof -
  from write_file_ok[OF ne d nd] obtain fs' where w: "write_file fs out b = Inr fs'"
    by blast
  then have c: "copy2 fs other out = Inr fs'"
    using o nd neq by (simp add: copy2_def read_file_def exists_def)
  have "lookup fs' other = lookup fs other"
    using write_file_untouched[OF w] file_dir_diverge[OF assms]
    by (intro untouchedD) auto
  with c write_file_lookup[OF w] o show ?thesis by simp
qed

lemma tool_writes_file_not_dir:
  assumes "\<not> is_dir fs p"
  shows "\<not> is_dir (tool_writes_file fs p w) p"
proof (cases w)
  case None
  with assms show ?thesis by (simp add: tool_writes_file_def)
next
  case (Some b)
  show ?thesis
  proof (cases "write_file fs p b")
    case (Inl x)
    with Some assms show ?thesis by (simp add: tool_writes_file_def)
  next
    case (Inr fs')
    from write_file_lookup[OF Inr] Some Inr show ?thesis
      by (simp add: tool_writes_file_def is_dir_def)
  qed
qed

lemma rfind_absent: "c \<notin> set x \<Longrightarrow> rfind x c = - 1"
  by (induction x) (auto simp: Let_def)

lemma rfind_last: "c \<notin> set x \<Longrightarrow> rfind (s @ c # x) c = int (length s)"
  by (induction s) (auto simp: Let_def rfind_absent)

lemma rfind_append_absent: "c \<notin> set y \<Longrightarrow> rfind (d @ y) c = rfind d c"
  by (induction d) (auto simp: Let_def rfind_absent)

lemma rfind_dir: "d = [] \<or> last d = c \<Longrightarrow> rfind d c + 1 = int (length d)"
proof (cases d rule: rev_cases)
  case Nil
  then show ?thesis by simp
next
  case (snoc d' a)
  assume "d = [] \<or> last d = c"
  with snoc have "a = c" by simp
  with snoc rfind_last[of c "[]" d'] show ?thesis by simp
qed

lemma splitext_loop_dots:
  assumes "\<forall>a \<in> set dots. a = CHR ''.''" and "c \<noteq> CHR ''.''"
    and "int (length d + length dots) < dotIndex"
  shows "splitext_loop (d @ dots @ c # rest) (int (length d)) dotIndex =
           Some (take (nat dotIndex) (d @ dots @ c # rest), drop (nat dotIndex) (d @ dots @ c # rest))"
  using assms
proof (induction dots arbitrary: d)
  case Nil
  then show ?case
    by (subst splitext_loop.simps) simp
next
  case (Cons a dots)
  then have a: "a = CHR ''.''" by simp
  have "splitext_loop ((d @ [a]) @ dots @ c # rest) (int (length (d @ [a]))) dotIndex =
     Some (take (nat dotIndex) ((d @ [a]) @ dots @ c # rest),
           drop (nat dotIndex) ((d @ [a]) @ dots @ c # rest))"
    using Cons.prems by (intro Cons.IH) auto
  then have ih: "splitext_loop (d @ a # dots @ c # rest) (int (length d) + 1) dotIndex =
     Some (take (nat dotIndex) (d @ a # dots @ c # rest),
           drop (nat dotIndex) (d @ a # dots @ c # rest))"
    by (simp add: add.commute)
  from Cons.prems(3) have lt: "int (length d) < dotIndex" by simp
  show ?case
    by (subst splitext_loop.simps) (simp add: a lt ih[unfolded a])
qed

lemma splitext_name_ext:
  assumes d: "d = [] \<or> last d = CHR ''/''" and b: "CHR ''/'' \<notin> set b"
    and nd: "\<exists>c \<in> set b. c \<noteq> CHR ''.''"
    and x: "CHR ''.'' \<notin> set x" "CHR ''/'' \<notin> set x"
  shows "splitext (d @ b @ ''.'' @ x) = (d @ b, ''.'' @ x)"
proof -
  from nd obtain dots c rest where bd: "b = dots @ c # rest" and c: "c \<noteq> CHR ''.''"
    and dots: "\<forall>a \<in> set dots. a = CHR ''.''"
    using split_list_first_prop[of b "\<lambda>c. c \<noteq> CHR ''.''"] by auto
  let ?p = "d @ b @ ''.'' @ x"
  have dot: "rfind ?p (CHR ''.'') = int (length (d @ b))"
    using rfind_last[of "CHR ''.''" x "d @ b"] x(1) by simp
  have "rfind ?p (CHR ''/'') = rfind d (CHR ''/'')"
    using rfind_append_absent[of "CHR ''/''" "b @ ''.'' @ x" d] b x(2) by simp
  with rfind_dir[OF d] have sep: "rfind ?p (CHR ''/'') + 1 = int (length d)" by simp
  have pe: "?p = d @ dots @ c # (rest @ ''.'' @ x)" by (simp add: bd)
  have "splitext_loop ?p (int (length d)) (int (length (d @ b))) =
      Some (take (nat (int (length (d @ b)))) ?p, drop (nat (int (length (d @ b)))) ?p)"
    unfolding pe using dots c by (intro splitext_loop_dots) (auto simp: bd)
  moreover have "take (length (d @ b)) ?p = d @ b" "drop (length (d @ b)) ?p = ''.'' @ x"
    by simp_all
  ultimately have loop: "splitext_loop ?p (rfind ?p (CHR ''/'') + 1) (rfind ?p (CHR ''.'')) =
      Some (d @ b, ''.'' @ x)"
    unfolding dot sep nat_int by simp
  have "rfind ?p (CHR ''.'') > rfind ?p (CHR ''/'')"
    using dot sep by simp
  with loop show ?thesis
    by (simp add: splitext_def Let_def)
qed


lemma allowed_extension_chars:
  assumes "lower x \<in> {''mp3'', ''wav'', ''m4a'', ''flac'', ''ogg'', ''aac''}"
  shows "CHR ''.'' \<notin> set x \<and> CHR ''/'' \<notin> set x \<and> lower (''.'' @ x) \<in> set allowed"
proof -
  have "lower_char (CHR ''.'') = CHR ''.''" "lower_char (CHR ''/'') = CHR ''/''"
    by (simp_all add: lower_char_def)
  then have "CHR ''.'' \<in> set x \<Longrightarrow> CHR ''.'' \<in> set (lower x)"
    and "CHR ''/'' \<in> set x \<Longrightarrow> CHR ''/'' \<in> set (lower x)"
    unfolding lower_def by force+
  moreover have "CHR ''.'' \<notin> set (lower x)" "CHR ''/'' \<notin> set (lower x)"
    using assms by auto
  moreover have "lower (''.'' @ x) = ''.'' @ lower x"
    by (simp add: lower_def lower_char_def)
  ultimately show ?thesis using assms by (auto simp: allowed_def)
qed

lemma allowed_name:
  assumes "d = [] \<or> last d = CHR ''/''" and "CHR ''/'' \<notin> set b"
    and "\<exists>c \<in> set b. c \<noteq> CHR ''.''"
    and "lower x \<in> {''mp3'', ''wav'', ''m4a'', ''flac'', ''ogg'', ''aac''}"
  shows "lower (snd (splitext (d @ b @ ''.'' @ x))) \<in> set allowed"
  using splitext_name_ext[OF assms(1-3), of x] allowed_extension_chars[OF assms(4)]
  by simp

lemma error_answer_cleanup:
  assumes "upload e fs file = (Json_response 500 b, fs')"
  shows "(\<exists>x. b = detail (str_exn e x)) \<and>
         (\<forall>q. lookup fs' (OUTPUTS e @ uuid4_hex e # q) = None) \<and>
         (\<exists>f. file = Some f \<and>
            lookup fs' (UPLOADS e @ [uuid4_hex e @ lower (snd (splitext (filename f)))]) =
              Some (File (content f)))"
  using assms
proof (rule upload_accepted)
  fix f ext fs1 fs2 r fs3
  let ?jd = "OUTPUTS e @ [uuid4_hex e]"
  let ?inp = "UPLOADS e @ [uuid4_hex e @ ext]"
  assume f: "file = Some f" and ext: "ext = lower (snd (splitext (filename f)))"
    and w: "write_file fs ?inp (content f) = Inr fs1"
    and m: "mkdir fs1 ?jd = Inr fs2"
    and j: "job e fs2 (uuid4_hex e) ext ?inp ?jd = (r, fs3)"
    and r: "(r = Inr (Json_response 500 b) \<and> fs' = fs3) \<or>
         (\<exists>x. r = Inl x \<and> (500::nat) = 500 \<and> b = detail (str_exn e x) \<and> fs' = rmtree fs3 ?jd)"
  from job_effect[OF j] have u: "untouched ?jd fs2 fs3"
    and k: "is_dir fs2 ?jd \<Longrightarrow> is_dir fs3 ?jd"
    and ok: "\<And>resp. r = Inr resp \<Longrightarrow> status resp = 200"
    by auto
  from r ok obtain x where x: "b = detail (str_exn e x)" and fs': "fs' = rmtree fs3 ?jd"
    by fastforce
  have "is_dir fs3 ?jd" using k mkdir_is_dir[OF m] by simp
  then have gone: "\<And>q. lookup fs' (?jd @ q) = None"
    unfolding fs' by (rule rmtree_gone) simp
  from upload_stored[OF assms] x gone[of "_"] show ?thesis by auto
qed simp

section \<open>The claims\<close>

subsection \<open>C1: the body of a successful upload\<close>

text \<open>
  C1 says that a successful upload answers with exactly six keys, each value a string
  beginning with \<open>/outputs/\<close>. The handler returns seven keys, and the value of \<open>id\<close> is
  the bare token. What holds: a response of status 200 is the JSON object with exactly
  the keys \<open>id\<close>, \<open>original\<close>, \<open>vocals\<close>, \<open>instrumental\<close>, \<open>drums\<close>, \<open>bass\<close>, \<open>other\<close>, in
  which \<open>id\<close> is the token of the job and each of the other six values is a string
  beginning with \<open>/outputs/\<close> followed by that token.
\<close>

theorem upload_success_body:
  assumes "status (fst (upload e fs file)) = 200"
  shows "\<exists>ext track.
           ext \<in> set allowed \<and>
           fst (upload e fs file) =
             Json_response 200 (JObject
               [(''id'', JString (uuid4_hex e)),
                (''original'', JString (''/outputs/'' @ uuid4_hex e @ ''/original'' @ ext)),
                (''vocals'',
                   JString (''/outputs/'' @ uuid4_hex e @ ''/htdemucs/'' @ track @ ''/vocals.wav'')),
                (''instrumental'',
                   JString (''/outputs/'' @ uuid4_hex e @ ''/htdemucs/'' @ track @ ''/instrumental.wav'')),
                (''drums'',
                   JString (''/outputs/'' @ uuid4_hex e @ ''/htdemucs/'' @ track @ ''/drums.wav'')),
                (''bass'',
                   JString (''/outputs/'' @ uuid4_hex e @ ''/htdemucs/'' @ track @ ''/bass.wav'')),
                (''other'',
                   JString (''/outputs/'' @ uuid4_hex e @ ''/htdemucs/'' @ track @ ''/other.wav''))])"
proof -
  obtain resp fs' where u: "upload e fs file = (resp, fs')"
    by (cases "upload e fs file") auto
  with assms upload_response_cases[of e fs "file"] obtain b where b: "resp = Json_response 200 b"
    by auto
  from u[unfolded b] show ?thesis
  proof (rule upload_accepted)
    fix f ext fs1 fs2 r fs3
    assume ext: "ext \<in> set allowed"
      and j: "job e fs2 (uuid4_hex e) ext (UPLOADS e @ [uuid4_hex e @ ext])
                (OUTPUTS e @ [uuid4_hex e]) = (r, fs3)"
      and r: "(r = Inr (Json_response 200 b) \<and> fs' = fs3) \<or>
         (\<exists>x. r = Inl x \<and> (200::nat) = 500 \<and> b = detail (str_exn e x) \<and>
              fs' = rmtree fs3 (OUTPUTS e @ [uuid4_hex e]))"
    from r have "r = Inr (Json_response 200 b)" by auto
    with job_effect[OF j] obtain c rel where
      "relative_to ((OUTPUTS e @ [uuid4_hex e]) @ [''htdemucs'', c]) (OUTPUTS e) = Inr rel"
      and "b = urls (uuid4_hex e) ext (''/outputs/'' @ as_posix rel)"
      by auto
    then have "b = urls (uuid4_hex e) ext (''/outputs/'' @ uuid4_hex e @ ''/htdemucs/'' @ c)"
      by (auto simp: relative_to_outputs as_posix_def)
    with ext u b show ?thesis
      by (auto simp: urls_def)
  qed simp
qed

theorem upload_success_body_witness:
  "status (fst (upload example_ok example_fs (Some example_song))) = 200 \<and>
   (\<exists>kv. fst (upload example_ok example_fs (Some example_song)) =
            Json_response 200 (JObject kv) \<and>
         map fst kv =
           [''id'', ''original'', ''vocals'', ''instrumental'', ''drums'', ''bass'', ''other''])"
proof -
  have h: "status (fst (upload example_ok example_fs (Some example_song))) = 200"
    by code_simp
  from upload_success_body[OF h] h show ?thesis by auto
qed

text \<open>
  The upload of the example succeeds; its answer has seven keys, and the value of \<open>id\<close>
  does not begin with \<open>/outputs/\<close>.
\<close>

theorem upload_six_keys_counterexample:
  "fst (upload example_ok example_fs (Some example_song)) =
     Json_response 200 (JObject
       [(''id'', JString ''0f8fad5bd9cb469fa16570867728950e''),
        (''original'', JString ''/outputs/0f8fad5bd9cb469fa16570867728950e/original.mp3''),
        (''vocals'',
           JString ''/outputs/0f8fad5bd9cb469fa16570867728950e/htdemucs/song/vocals.wav''),
        (''instrumental'',
           JString ''/outputs/0f8fad5bd9cb469fa16570867728950e/htdemucs/song/instrumental.wav''),
        (''drums'',
           JString ''/outputs/0f8fad5bd9cb469fa16570867728950e/htdemucs/song/drums.wav''),
        (''bass'', JString ''/outputs/0f8fad5bd9cb469fa16570867728950e/htdemucs/song/bass.wav''),
        (''other'',
           JString ''/outputs/0f8fad5bd9cb469fa16570867728950e/htdemucs/song/other.wav'')]) \<and>
   \<not> prefix ''/outputs/'' ''0f8fad5bd9cb469fa16570867728950e''"
proof -
  have "fst (upload example_ok example_fs (Some example_song)) =
     Json_response 200 (JObject
       [(''id'', JString ''0f8fad5bd9cb469fa16570867728950e''),
        (''original'', JString ''/outputs/0f8fad5bd9cb469fa16570867728950e/original.mp3''),
        (''vocals'',
           JString ''/outputs/0f8fad5bd9cb469fa16570867728950e/htdemucs/song/vocals.wav''),
        (''instrumental'',
           JString ''/outputs/0f8fad5bd9cb469fa16570867728950e/htdemucs/song/instrumental.wav''),
        (''drums'',
           JString ''/outputs/0f8fad5bd9cb469fa16570867728950e/htdemucs/song/drums.wav''),
        (''bass'', JString ''/outputs/0f8fad5bd9cb469fa16570867728950e/htdemucs/song/bass.wav''),
        (''other'',
           JString ''/outputs/0f8fad5bd9cb469fa16570867728950e/htdemucs/song/other.wav'')])"
    by code_simp
  moreover have "\<not> prefix ''/outputs/'' ''0f8fad5bd9cb469fa16570867728950e''"
    by simp
  ultimately show ?thesis by simp
qed

subsection \<open>C2: what a failed job leaves behind\<close>

text \<open>
  C2 says that after a failure every file of the job is deleted, the persisted upload
  included. The handler removes the job's directory under the outputs root and nothing
  else; no code path deletes from the uploads directory. What holds: when the upload was
  accepted and persisted and the job directory created, and then the separation, the
  stem verification, the mixing or the copy of the original raises, the endpoint answers
  500 with the text of the exception, nothing is addressable at or below the job's
  output directory afterwards, and the persisted upload is still in the uploads
  directory with the uploaded bytes.
\<close>

theorem failed_job_cleanup:
  assumes "filename f \<noteq> []" and "lower (snd (splitext (filename f))) = ext"
    and "ext \<in> set allowed"
    and "input_path = UPLOADS e @ [uuid4_hex e @ ext]"
    and "job_dir = OUTPUTS e @ [uuid4_hex e]"
    and "write_file fs input_path (content f) = Inr fs1"
    and "mkdir fs1 job_dir = Inr fs2"
    and "run_demucs e fs2 input_path job_dir = (Inl x, fs3) \<or>
         (\<exists>sub. run_demucs e fs2 input_path job_dir = (Inr sub, fs3) \<and>
            check_stems fs3 [sub @ [''vocals.wav''], sub @ [''drums.wav''],
              sub @ [''bass.wav''], sub @ [''other.wav'']] = Some x) \<or>
         (\<exists>sub fsa. run_demucs e fs2 input_path job_dir = (Inr sub, fsa) \<and>
            check_stems fsa [sub @ [''vocals.wav''], sub @ [''drums.wav''],
              sub @ [''bass.wav''], sub @ [''other.wav'']] = None \<and>
            make_instrumental e fsa (sub @ [''drums.wav'']) (sub @ [''bass.wav''])
              (sub @ [''other.wav'']) (sub @ [''instrumental.wav'']) = (Inl x, fs3)) \<or>
         (\<exists>sub fsa u. run_demucs e fs2 input_path job_dir = (Inr sub, fsa) \<and>
            check_stems fsa [sub @ [''vocals.wav''], sub @ [''drums.wav''],
              sub @ [''bass.wav''], sub @ [''other.wav'']] = None \<and>
            make_instrumental e fsa (sub @ [''drums.wav'']) (sub @ [''bass.wav''])
              (sub @ [''other.wav'']) (sub @ [''instrumental.wav'']) = (Inr u, fs3) \<and>
            copy2 fs3 input_path (job_dir @ [''original'' @ ext]) = Inl x)"
  shows "upload e fs (Some f) =
           (Json_response 500 (detail (str_exn e x)), rmtree fs3 job_dir) \<and>
         (\<forall>q. lookup (rmtree fs3 job_dir) (job_dir @ q) = None) \<and>
         lookup (rmtree fs3 job_dir) input_path = Some (File (content f))"
proof -
  have j: "job e fs2 (uuid4_hex e) ext input_path job_dir = (Inl x, fs3)"
    using assms(8) by (auto simp: job_def)
  have u: "upload e fs (Some f) =
      (Json_response 500 (detail (str_exn e x)), rmtree fs3 job_dir)"
    using assms(1-7) j by (simp add: upload_def)
  have "is_dir fs2 job_dir" using assms(7) by (rule mkdir_is_dir)
  with job_effect[OF j] have "is_dir fs3 job_dir" by (simp add: assms(5))
  then have gone: "\<And>q. lookup (rmtree fs3 job_dir) (job_dir @ q) = None"
    by (rule rmtree_gone) (simp add: assms(5))
  have "lookup (rmtree fs3 job_dir) input_path = Some (File (content f))"
    using upload_stored[OF u] assms(2,4) by simp
  with u gone show ?thesis by simp
qed

theorem failed_job_cleanup_witness:
  "status (fst (upload example_failing example_fs (Some example_song))) = 500 \<and>
   lookup (snd (upload example_failing example_fs (Some example_song)))
     [''srv'', ''app'', ''outputs'', ''0f8fad5bd9cb469fa16570867728950e''] = None \<and>
   lookup (snd (upload example_failing example_fs (Some example_song)))
     [''srv'', ''app'', ''uploads'', ''0f8fad5bd9cb469fa16570867728950e.mp3''] =
     Some (File ''RIFF'') \<and>
   fst (upload example_ffmpeg_denied example_fs (Some example_song)) =
     Json_response 500 (detail ''error'') \<and>
   lookup (snd (upload example_ffmpeg_denied example_fs (Some example_song)))
     [''srv'', ''app'', ''outputs'', ''0f8fad5bd9cb469fa16570867728950e''] = None \<and>
   lookup (snd (upload example_ffmpeg_denied example_fs (Some example_song)))
     [''srv'', ''app'', ''uploads'', ''0f8fad5bd9cb469fa16570867728950e.mp3''] =
     Some (File ''RIFF'')"
proof -
  let ?inp = "[''srv'', ''app'', ''uploads'', ''0f8fad5bd9cb469fa16570867728950e.mp3'']"
  let ?jd = "[''srv'', ''app'', ''outputs'', ''0f8fad5bd9cb469fa16570867728950e'']"
  let ?fs1 = "projr (write_file example_fs ?inp (content example_song))"
  let ?fs2 = "projr (mkdir ?fs1 ?jd)"
  have h: "filename example_song \<noteq> []"
    "lower (snd (splitext (filename example_song))) = ''.mp3''"
    "''.mp3'' \<in> set allowed"
    "write_file example_fs ?inp (content example_song) = Inr ?fs1"
    "mkdir ?fs1 ?jd = Inr ?fs2"
    "content example_song = ''RIFF''"
    by code_simp+
  text \<open>The separation fails.\<close>
  let ?x = "RuntimeError (demucs_failed (demucs_cmd example_failing ?inp ?jd) [] ''out of memory'')"
  let ?r = "run_demucs example_failing ?fs2 ?inp ?jd"
  have a: "?inp = UPLOADS example_failing @ [uuid4_hex example_failing @ ''.mp3'']"
    "?jd = OUTPUTS example_failing @ [uuid4_hex example_failing]"
    "?r = (Inl ?x, snd ?r)"
    by code_simp+
  have sep: "?r = (Inl ?x, snd ?r) \<or>
         (\<exists>sub. ?r = (Inr sub, snd ?r) \<and>
            check_stems (snd ?r) [sub @ [''vocals.wav''], sub @ [''drums.wav''],
              sub @ [''bass.wav''], sub @ [''other.wav'']] = Some ?x) \<or>
         (\<exists>sub fsa. ?r = (Inr sub, fsa) \<and>
            check_stems fsa [sub @ [''vocals.wav''], sub @ [''drums.wav''],
              sub @ [''bass.wav''], sub @ [''other.wav'']] = None \<and>
            make_instrumental example_failing fsa (sub @ [''drums.wav'']) (sub @ [''bass.wav''])
              (sub @ [''other.wav'']) (sub @ [''instrumental.wav'']) = (Inl ?x, snd ?r)) \<or>
         (\<exists>sub fsa u. ?r = (Inr sub, fsa) \<and>
            check_stems fsa [sub @ [''vocals.wav''], sub @ [''drums.wav''],
              sub @ [''bass.wav''], sub @ [''other.wav'']] = None \<and>
            make_instrumental example_failing fsa (sub @ [''drums.wav'']) (sub @ [''bass.wav''])
              (sub @ [''other.wav'']) (sub @ [''instrumental.wav'']) = (Inr u, snd ?r) \<and>
            copy2 (snd ?r) ?inp (?jd @ [''original'' @ ''.mp3'']) = Inl ?x)"
    using a(3) by (rule disjI1)
  note t1 = failed_job_cleanup[OF h(1-3) a(1,2) h(4,5) sep]
  text \<open>The mixing fails.\<close>
  let ?y = "OtherException ''PermissionError''"
  let ?s = "run_demucs example_ffmpeg_denied ?fs2 ?inp ?jd"
  let ?sub = "?jd @ [''htdemucs'', ''song'']"
  let ?m = "make_instrumental example_ffmpeg_denied (snd ?s) (?sub @ [''drums.wav''])
              (?sub @ [''bass.wav'']) (?sub @ [''other.wav'']) (?sub @ [''instrumental.wav''])"
  have b: "?inp = UPLOADS example_ffmpeg_denied @ [uuid4_hex example_ffmpeg_denied @ ''.mp3'']"
    "?jd = OUTPUTS example_ffmpeg_denied @ [uuid4_hex example_ffmpeg_denied]"
    "?s = (Inr ?sub, snd ?s)"
    "check_stems (snd ?s) [?sub @ [''vocals.wav''], ?sub @ [''drums.wav''],
              ?sub @ [''bass.wav''], ?sub @ [''other.wav'']] = None"
    "?m = (Inl ?y, snd ?m)"
    "str_exn example_ffmpeg_denied ?y = ''error''"
    by code_simp+
  have mix: "?s = (Inl ?y, snd ?m) \<or>
         (\<exists>sub. ?s = (Inr sub, snd ?m) \<and>
            check_stems (snd ?m) [sub @ [''vocals.wav''], sub @ [''drums.wav''],
              sub @ [''bass.wav''], sub @ [''other.wav'']] = Some ?y) \<or>
         (\<exists>sub fsa. ?s = (Inr sub, fsa) \<and>
            check_stems fsa [sub @ [''vocals.wav''], sub @ [''drums.wav''],
              sub @ [''bass.wav''], sub @ [''other.wav'']] = None \<and>
            make_instrumental example_ffmpeg_denied fsa (sub @ [''drums.wav''])
              (sub @ [''bass.wav'']) (sub @ [''other.wav'']) (sub @ [''instrumental.wav'']) =
              (Inl ?y, snd ?m)) \<or>
         (\<exists>sub fsa u. ?s = (Inr sub, fsa) \<and>
            check_stems fsa [sub @ [''vocals.wav''], sub @ [''drums.wav''],
              sub @ [''bass.wav''], sub @ [''other.wav'']] = None \<and>
            make_instrumental example_ffmpeg_denied fsa (sub @ [''drums.wav''])
              (sub @ [''bass.wav'']) (sub @ [''other.wav'']) (sub @ [''instrumental.wav'']) =
              (Inr u, snd ?m) \<and>
            copy2 (snd ?m) ?inp (?jd @ [''original'' @ ''.mp3'']) = Inl ?y)"
    using b(3-5) by blast
  note t2 = failed_job_cleanup[OF h(1-3) b(1,2) h(4,5) mix]
  from t1 t2 show ?thesis
    using h(6) b(6) by (simp add: prod_eq_iff)
qed

text \<open>
  In the example the separation tool exits with code 1: the answer has status 500, and
  the persisted upload is still in the uploads directory.
\<close>

theorem failed_job_upload_counterexample:
  "status (fst (upload example_failing example_fs (Some example_song))) = 500 \<and>
   lookup (snd (upload example_failing example_fs (Some example_song)))
     [''srv'', ''app'', ''uploads'', ''0f8fad5bd9cb469fa16570867728950e.mp3''] =
     Some (File ''RIFF'')"
  by code_simp

subsection \<open>C10: the uploads directory is only added to\<close>

text \<open>
  C10: no operation deletes or modifies a file under the uploads directory once written;
  after a failed job the persisted upload is still there. \<open>outputs_serve\<close> and \<open>health\<close>
  only read. For \<open>upload\<close>: whatever lies in the uploads directory under another name
  than the one written by this request is the same afterwards, and when the request got
  as far as the job (any JSON answer but the rejection with 400, so also the error of
  status 500) the persisted upload is in the uploads directory with the uploaded bytes.
\<close>

theorem uploads_kept:
  assumes "upload e fs file = (resp, fs')"
  shows "(\<forall>n q. (\<forall>f. file = Some f \<longrightarrow> n \<noteq> uuid4_hex e @ lower (snd (splitext (filename f)))) \<longrightarrow>
            lookup fs' (UPLOADS e @ n # q) = lookup fs (UPLOADS e @ n # q)) \<and>
         (\<forall>s b. resp = Json_response s b \<longrightarrow> s \<noteq> 400 \<longrightarrow>
            (\<exists>f. file = Some f \<and>
               lookup fs' (UPLOADS e @ [uuid4_hex e @ lower (snd (splitext (filename f)))]) =
                 Some (File (content f))))"
proof (intro conjI allI impI)
  fix n q
  assume n: "\<forall>f. file = Some f \<longrightarrow> n \<noteq> uuid4_hex e @ lower (snd (splitext (filename f)))"
  from upload_effect[OF assms]
  show "lookup fs' (UPLOADS e @ n # q) = lookup fs (UPLOADS e @ n # q)"
  proof
    assume "fs' = fs"
    then show ?thesis by simp
  next
    assume "\<exists>f fs1. file = Some f \<and>
            write_file fs (UPLOADS e @ [uuid4_hex e @ lower (snd (splitext (filename f)))])
              (content f) = Inr fs1 \<and>
            untouched (OUTPUTS e @ [uuid4_hex e]) fs1 fs'"
    then obtain f fs1 where f: "file = Some f"
      and w: "write_file fs (UPLOADS e @ [uuid4_hex e @ lower (snd (splitext (filename f)))])
              (content f) = Inr fs1"
      and u: "untouched (OUTPUTS e @ [uuid4_hex e]) fs1 fs'"
      by blast
    have "lookup fs' (UPLOADS e @ n # q) = lookup fs1 (UPLOADS e @ n # q)"
      using u upload_path_diverge[where e=e and n=n and q=q and u="uuid4_hex e"] by (intro untouchedD) auto
    also have "\<dots> = lookup fs (UPLOADS e @ n # q)"
      using write_file_untouched[OF w] n f by (intro untouchedD) auto
    finally show ?thesis .
  qed
next
  fix s b
  assume "resp = Json_response s b" and s: "s \<noteq> 400"
  with assms have a: "upload e fs file = (Json_response s b, fs')" by simp
  from a s show "\<exists>f. file = Some f \<and>
               lookup fs' (UPLOADS e @ [uuid4_hex e @ lower (snd (splitext (filename f)))]) =
                 Some (File (content f))"
    by (rule upload_stored)
qed

theorem uploads_kept_witness:
  "lookup (snd (upload example_failing example_fs (Some example_song)))
     [''srv'', ''app'', ''uploads'', ''old.mp3''] = Some (File ''OLD'') \<and>
   lookup (snd (upload example_failing example_fs (Some example_song)))
     [''srv'', ''app'', ''uploads'', ''0f8fad5bd9cb469fa16570867728950e.mp3''] =
     Some (File ''RIFF'')"
proof -
  have "case fst (upload example_failing example_fs (Some example_song)) of
          Json_response s b \<Rightarrow> s = 500
        | _ \<Rightarrow> False"
    by code_simp
  then obtain b where b: "fst (upload example_failing example_fs (Some example_song)) =
      Json_response 500 b"
    by (auto split: response.splits)
  have p: "UPLOADS example_failing @ ''old.mp3'' # [] =
      [''srv'', ''app'', ''uploads'', ''old.mp3'']"
    "UPLOADS example_failing @
       [uuid4_hex example_failing @ lower (snd (splitext (filename example_song)))] =
      [''srv'', ''app'', ''uploads'', ''0f8fad5bd9cb469fa16570867728950e.mp3'']"
    "content example_song = ''RIFF''"
    "lookup example_fs [''srv'', ''app'', ''uploads'', ''old.mp3''] = Some (File ''OLD'')"
    by code_simp+
  have n: "''old.mp3'' \<noteq>
      uuid4_hex example_failing @ lower (snd (splitext (filename example_song)))"
    by code_simp
  have "upload example_failing example_fs (Some example_song) =
      (fst (upload example_failing example_fs (Some example_song)),
       snd (upload example_failing example_fs (Some example_song)))"
    by simp
  from uploads_kept[OF this] n b have
    "lookup (snd (upload example_failing example_fs (Some example_song)))
       (UPLOADS example_failing @ ''old.mp3'' # []) =
     lookup example_fs (UPLOADS example_failing @ ''old.mp3'' # [])"
    and "lookup (snd (upload example_failing example_fs (Some example_song)))
       (UPLOADS example_failing @
          [uuid4_hex example_failing @ lower (snd (splitext (filename example_song)))]) =
       Some (File (content example_song))"
    by auto
  then show ?thesis unfolding p by simp
qed


subsection \<open>C9: a file name without extension\<close>

text \<open>
  C9: an upload whose file name is not empty but has no extension (\<open>splitext\<close> gives the
  empty extension) is answered with 400 and \<open>Unsupported file format.\<close>, the answer given
  to an extension that is not allowed and not the one given to a missing file, and the
  file system is left as it was.
\<close>

theorem no_extension_rejected:
  assumes "filename f \<noteq> []" and "snd (splitext (filename f)) = []"
  shows "upload e fs (Some f) = (Json_response 400 (detail ''Unsupported file format.''), fs)"
  using assms by (simp add: upload_def lower_def allowed_def)

theorem no_extension_rejected_witness:
  "filename (example_file ''README'') \<noteq> [] \<and>
   snd (splitext (filename (example_file ''README''))) = [] \<and>
   upload example_ok example_fs (Some (example_file ''README'')) =
     (Json_response 400 (detail ''Unsupported file format.''), example_fs)"
proof -
  have h: "filename (example_file ''README'') \<noteq> []"
    "snd (splitext (filename (example_file ''README''))) = []"
    by code_simp+
  from no_extension_rejected[OF h] h show ?thesis by simp
qed


subsection \<open>C4: the extension check\<close>

text \<open>
  C4: a file name whose extension, lower-cased, is one of \<open>.mp3\<close>, \<open>.wav\<close>, \<open>.m4a\<close>,
  \<open>.flac\<close>, \<open>.ogg\<close>, \<open>.aac\<close> is accepted: the answer is not the rejection with 400, and
  where the uploads directory exists the upload is persisted there under the token and
  the lower-cased extension. Any other extension is answered with 400 and
  \<open>Unsupported file format.\<close>, and the file system is left as it was: neither the upload
  file nor a job directory is written. The extension is what \<open>os.path.splitext\<close> gives.
  In particular it is \<open>.x\<close> for every name of the form \<open>d b.x\<close>, where \<open>d\<close> is empty or
  ends with a slash, \<open>b\<close> has no slash and has a character other than a dot, and \<open>x\<close> is
  one of the six extensions in any letter case; so every such name is accepted.
\<close>

theorem extension_gate:
  assumes "filename f \<noteq> []"
  shows "(lower (snd (splitext (filename f))) \<in> set allowed \<longrightarrow>
            status (fst (upload e fs (Some f))) \<noteq> 400 \<and>
            (is_dir fs (UPLOADS e) \<longrightarrow>
             \<not> is_dir fs (UPLOADS e @ [uuid4_hex e @ lower (snd (splitext (filename f)))]) \<longrightarrow>
             lookup (snd (upload e fs (Some f)))
               (UPLOADS e @ [uuid4_hex e @ lower (snd (splitext (filename f)))]) =
               Some (File (content f)))) \<and>
         (lower (snd (splitext (filename f))) \<notin> set allowed \<longrightarrow>
            upload e fs (Some f) = (Json_response 400 (detail ''Unsupported file format.''), fs)) \<and>
         (\<forall>d b x. filename f = d @ b @ ''.'' @ x \<longrightarrow>
            (d = [] \<or> last d = CHR ''/'') \<longrightarrow> CHR ''/'' \<notin> set b \<longrightarrow>
            (\<exists>c \<in> set b. c \<noteq> CHR ''.'') \<longrightarrow>
            lower x \<in> {''mp3'', ''wav'', ''m4a'', ''flac'', ''ogg'', ''aac''} \<longrightarrow>
            lower (snd (splitext (filename f))) \<in> set allowed)"
proof (intro conjI impI allI)
  assume a: "lower (snd (splitext (filename f))) \<in> set allowed"
  have "\<And>fs2 u x i jd resp fs3. job e fs2 u x i jd = (Inr resp, fs3) \<Longrightarrow> status resp = 200"
    using job_effect by fastforce
  with assms a show "status (fst (upload e fs (Some f))) \<noteq> 400"
    by (auto simp: upload_def Let_def split: option.splits if_splits sum.splits prod.splits)
next
  let ?inp = "UPLOADS e @ [uuid4_hex e @ lower (snd (splitext (filename f)))]"
  assume a: "lower (snd (splitext (filename f))) \<in> set allowed"
    and d: "is_dir fs (UPLOADS e)" and n: "\<not> is_dir fs ?inp"
  from d n obtain fs1 where w: "write_file fs ?inp (content f) = Inr fs1"
    using write_file_ok[of ?inp fs "content f"] by auto
  have "untouched (OUTPUTS e @ [uuid4_hex e]) fs1 (snd (upload e fs (Some f)))"
    using assms a w by (rule upload_accepted_effect)
  then have "lookup (snd (upload e fs (Some f))) ?inp = lookup fs1 ?inp"
    using upload_path_diverge[where e=e and q="[]" and u="uuid4_hex e"
        and n="uuid4_hex e @ lower (snd (splitext (filename f)))"]
    by (intro untouchedD) auto
  with write_file_lookup[OF w]
  show "lookup (snd (upload e fs (Some f))) ?inp = Some (File (content f))"
    by simp
next
  assume "lower (snd (splitext (filename f))) \<notin> set allowed"
  with assms
  show "upload e fs (Some f) = (Json_response 400 (detail ''Unsupported file format.''), fs)"
    by (simp add: upload_def)
next
  fix d b x
  assume "filename f = d @ b @ ''.'' @ x" and "d = [] \<or> last d = CHR ''/''"
    and "CHR ''/'' \<notin> set b" and "\<exists>c \<in> set b. c \<noteq> CHR ''.''"
    and "lower x \<in> {''mp3'', ''wav'', ''m4a'', ''flac'', ''ogg'', ''aac''}"
  then show "lower (snd (splitext (filename f))) \<in> set allowed"
    using allowed_name[of d b x] by simp
qed


theorem extension_gate_witness:
  "filename example_song = [] @ ''Song'' @ ''.'' @ ''MP3'' \<and>
   lower ''MP3'' \<in> {''mp3'', ''wav'', ''m4a'', ''flac'', ''ogg'', ''aac''} \<and>
   lower (snd (splitext (filename example_song))) \<in> set allowed \<and>
   status (fst (upload example_ok example_fs (Some example_song))) \<noteq> 400 \<and>
   lookup (snd (upload example_ok example_fs (Some example_song)))
     [''srv'', ''app'', ''uploads'', ''0f8fad5bd9cb469fa16570867728950e.mp3''] =
     Some (File ''RIFF'') \<and>
   filename (example_file ''clip.xyz'') \<noteq> [] \<and>
   lower (snd (splitext (filename (example_file ''clip.xyz'')))) \<notin> set allowed \<and>
   upload example_ok example_fs (Some (example_file ''clip.xyz'')) =
     (Json_response 400 (detail ''Unsupported file format.''), example_fs)"
proof -
  have n: "filename example_song \<noteq> []"
    "filename example_song = [] @ ''Song'' @ ''.'' @ ''MP3''"
    "lower ''MP3'' \<in> {''mp3'', ''wav'', ''m4a'', ''flac'', ''ogg'', ''aac''}"
    "CHR ''/'' \<notin> set ''Song''" "\<exists>c \<in> set ''Song''. c \<noteq> CHR ''.''"
    "is_dir example_fs (UPLOADS example_ok)"
    "\<not> is_dir example_fs
       (UPLOADS example_ok @
          [uuid4_hex example_ok @ lower (snd (splitext (filename example_song)))])"
    by code_simp+
  have p: "UPLOADS example_ok @
       [uuid4_hex example_ok @ lower (snd (splitext (filename example_song)))] =
      [''srv'', ''app'', ''uploads'', ''0f8fad5bd9cb469fa16570867728950e.mp3'']"
    "content example_song = ''RIFF''"
    by code_simp+
  have g: "filename (example_file ''clip.xyz'') \<noteq> []"
    "lower (snd (splitext (filename (example_file ''clip.xyz'')))) \<notin> set allowed"
    by code_simp+
  note t = extension_gate[OF n(1), of example_ok example_fs]
  from t n(2-5) have a: "lower (snd (splitext (filename example_song))) \<in> set allowed"
    by blast
  with t n(6,7) have
    "status (fst (upload example_ok example_fs (Some example_song))) \<noteq> 400"
    and "lookup (snd (upload example_ok example_fs (Some example_song)))
       (UPLOADS example_ok @
          [uuid4_hex example_ok @ lower (snd (splitext (filename example_song)))]) =
       Some (File (content example_song))"
    by blast+
  moreover from extension_gate[OF g(1), of example_ok example_fs] g have
    "upload example_ok example_fs (Some (example_file ''clip.xyz'')) =
       (Json_response 400 (detail ''Unsupported file format.''), example_fs)"
    by blast
  ultimately show ?thesis using n(2,3) a g unfolding p by simp
qed

subsection \<open>C3: a missing stem\<close>

text \<open>
  C3: when the upload was accepted and persisted, the separation returned its track
  folder, and at least one of \<open>vocals.wav\<close>, \<open>drums.wav\<close>, \<open>bass.wav\<close>, \<open>other.wav\<close> is
  absent from that folder, the endpoint answers 500 with an error that names the first
  missing stem (in that order), and the job's output directory does not exist afterwards.
\<close>

theorem missing_stem_response:
  assumes "filename f \<noteq> []" and "lower (snd (splitext (filename f))) = ext"
    and "ext \<in> set allowed"
    and "write_file fs (UPLOADS e @ [uuid4_hex e @ ext]) (content f) = Inr fs1"
    and "mkdir fs1 (OUTPUTS e @ [uuid4_hex e]) = Inr fs2"
    and "run_demucs e fs2 (UPLOADS e @ [uuid4_hex e @ ext]) (OUTPUTS e @ [uuid4_hex e]) =
           (Inr sub, fs3)"
    and "filter (\<lambda>n. \<not> exists fs3 (sub @ [n]))
           [''vocals.wav'', ''drums.wav'', ''bass.wav'', ''other.wav''] = m # ms"
  shows "fst (upload e fs (Some f)) =
           Json_response 500 (detail (''Missing expected stem: '' @ m)) \<and>
         \<not> exists (snd (upload e fs (Some f))) (OUTPUTS e @ [uuid4_hex e])"
proof -
  let ?jd = "OUTPUTS e @ [uuid4_hex e]"
  have c: "check_stems fs3 [sub @ [''vocals.wav''], sub @ [''drums.wav''],
             sub @ [''bass.wav''], sub @ [''other.wav'']] =
           Some (RuntimeError (''Missing expected stem: '' @ m))"
    using check_stems_filter[of fs3 sub "[''vocals.wav'', ''drums.wav'', ''bass.wav'', ''other.wav'']"]
      assms(7) by simp
  have j: "job e fs2 (uuid4_hex e) ext (UPLOADS e @ [uuid4_hex e @ ext]) ?jd =
      (Inl (RuntimeError (''Missing expected stem: '' @ m)), fs3)"
    using assms(6) c by (simp add: job_def)
  have u: "upload e fs (Some f) =
      (Json_response 500 (detail (''Missing expected stem: '' @ m)), rmtree fs3 ?jd)"
    using assms(1-5) j by (simp add: upload_def)
  have "is_dir fs3 ?jd"
    using mkdir_is_dir[OF assms(5)] run_demucs_keeps_dir[OF assms(6)] by simp
  then have "lookup (rmtree fs3 ?jd) (?jd @ []) = None"
    by (rule rmtree_gone) simp
  with u show ?thesis by (simp add: exists_def)
qed

theorem missing_stem_response_witness:
  "fst (upload example_partial example_fs (Some example_song)) =
     Json_response 500 (detail ''Missing expected stem: drums.wav'') \<and>
   \<not> exists (snd (upload example_partial example_fs (Some example_song)))
       [''srv'', ''app'', ''outputs'', ''0f8fad5bd9cb469fa16570867728950e'']"
proof -
  let ?inp = "UPLOADS example_partial @ [uuid4_hex example_partial @ ''.mp3'']"
  let ?jd = "OUTPUTS example_partial @ [uuid4_hex example_partial]"
  let ?fs1 = "projr (write_file example_fs ?inp (content example_song))"
  let ?fs2 = "projr (mkdir ?fs1 ?jd)"
  let ?r = "run_demucs example_partial ?fs2 ?inp ?jd"
  have h1: "filename example_song \<noteq> []"
    and h2: "lower (snd (splitext (filename example_song))) = ''.mp3''"
    and h3: "''.mp3'' \<in> set allowed"
    and h4: "write_file example_fs ?inp (content example_song) = Inr ?fs1"
    and h5: "mkdir ?fs1 ?jd = Inr ?fs2"
    and h6: "?r = (Inr (?jd @ [''htdemucs'', ''song'']), snd ?r)"
    and h7: "filter (\<lambda>n. \<not> exists (snd ?r) ((?jd @ [''htdemucs'', ''song'']) @ [n]))
           [''vocals.wav'', ''drums.wav'', ''bass.wav'', ''other.wav''] =
           ''drums.wav'' # [''bass.wav'']"
    by code_simp+
  have p: "?jd = [''srv'', ''app'', ''outputs'', ''0f8fad5bd9cb469fa16570867728950e'']"
    by code_simp
  from missing_stem_response[OF h1 h2 h3 h4 h5 h6 h7] show ?thesis
    unfolding p by simp
qed


subsection \<open>C7: the track folder of a separation run\<close>

text \<open>
  C7: when the separation tool exits with code 0, \<open>run_demucs\<close> fails if
  \<open>out_dir/htdemucs\<close> is absent (or is not a directory) or holds no subdirectory, and
  otherwise returns the first subdirectory of \<open>out_dir/htdemucs\<close> in the order of the
  directory's entries.
\<close>

theorem run_demucs_track_folder:
  assumes "fst (demucs_proc e (demucs_cmd e input_path out_dir) fs) = Completed 0 out err"
    and "fs' = tool_writes_dir fs out_dir (snd (demucs_proc e (demucs_cmd e input_path out_dir) fs))"
  shows "(lookup fs' (out_dir @ [''htdemucs'']) = None \<longrightarrow>
            run_demucs e fs input_path out_dir =
              (Inl (RuntimeError ''Demucs output not found.''), fs')) \<and>
         (\<forall>b. lookup fs' (out_dir @ [''htdemucs'']) = Some (File b) \<longrightarrow>
            (\<exists>x. run_demucs e fs input_path out_dir = (Inl x, fs'))) \<and>
         (\<forall>es. lookup fs' (out_dir @ [''htdemucs'']) = Some (Dir es) \<longrightarrow>
            run_demucs e fs input_path out_dir =
              (case filter (\<lambda>n. is_dir fs' (out_dir @ [''htdemucs'', n])) (map fst es) of
                 [] \<Rightarrow> Inl (RuntimeError ''Demucs didn't produce a track folder.'')
               | n # ns \<Rightarrow> Inr (out_dir @ [''htdemucs'', n]),
               fs'))"
  using assms
  by (auto simp: run_demucs_def Let_def exists_def iterdir_def filter_children
           split: list.splits)

theorem run_demucs_track_folder_witness:
  "run_demucs example_ok example_fs [''srv'', ''app'', ''uploads'', ''a.mp3'']
     [''srv'', ''app'', ''outputs'', ''job''] =
     (Inr [''srv'', ''app'', ''outputs'', ''job'', ''htdemucs'', ''song''],
      tool_writes_dir example_fs [''srv'', ''app'', ''outputs'', ''job'']
        (snd (demucs_proc example_ok
           (demucs_cmd example_ok [''srv'', ''app'', ''uploads'', ''a.mp3'']
              [''srv'', ''app'', ''outputs'', ''job'']) example_fs))) \<and>
   run_demucs example_failing example_fs [''srv'', ''app'', ''uploads'', ''a.mp3'']
     [''srv'', ''app'', ''outputs'', ''job''] \<noteq>
     (Inl (RuntimeError ''Demucs output not found.''), example_fs)"
proof -
  let ?i = "[''srv'', ''app'', ''uploads'', ''a.mp3'']"
  let ?o = "[''srv'', ''app'', ''outputs'', ''job'']"
  let ?fs' = "tool_writes_dir example_fs ?o (snd (demucs_proc example_ok
           (demucs_cmd example_ok ?i ?o) example_fs))"
  have h: "fst (demucs_proc example_ok (demucs_cmd example_ok ?i ?o) example_fs) =
      Completed 0 [] []"
    by code_simp
  have l: "lookup ?fs' (?o @ [''htdemucs'']) =
      Some (Dir [(''song'', Dir [(''vocals.wav'', File ''V''), (''drums.wav'', File ''D''),
         (''bass.wav'', File ''B''), (''other.wav'', File ''O'')])])"
    by code_simp
  have c: "filter (\<lambda>n. is_dir ?fs' (?o @ [''htdemucs'', n]))
      (map fst [(''song'', Dir [(''vocals.wav'', File ''V''), (''drums.wav'', File ''D''),
         (''bass.wav'', File ''B''), (''other.wav'', File ''O'')])]) = [''song'']"
    by code_simp
  have "run_demucs example_ok example_fs ?i ?o = (Inr (?o @ [''htdemucs'', ''song'']), ?fs')"
    using run_demucs_track_folder[OF h refl] l c by simp
  moreover have "run_demucs example_failing example_fs ?i ?o \<noteq>
     (Inl (RuntimeError ''Demucs output not found.''), example_fs)"
    by code_simp
  ultimately show ?thesis by simp
qed


subsection \<open>C8: serving from the outputs directory\<close>

text \<open>
  C8: when the path joined from the outputs root and the request's path does not exist or
  is not a regular file, the answer is 404 with the body \<open>{"detail": "File not found."}\<close>,
  and no canonicalization or rejection of escaping paths is performed. The handler
  answers 404 for a path that is missing or a directory and serves every regular file
  the joined path resolves to, also outside the outputs root. But for a path that does
  not exist because one of its names is too long, \<open>full.exists()\<close> raises instead of
  answering \<open>False\<close>: the request for a name of 256 characters is answered with status
  500, not with 404. The second half of the statement is the escape: \<open>../uploads/old.mp3\<close>
  is served from the uploads directory.
\<close>

theorem outputs_serve_long_name:
  "lookup example_fs (truediv (OUTPUTS example_ok) (replicate 256 (CHR ''a''))) = None \<and>
   os_stat example_fs (truediv (OUTPUTS example_ok) (replicate 256 (CHR ''a''))) =
     Name_too_long \<and>
   outputs_serve example_ok example_fs (replicate 256 (CHR ''a'')) =
     Unhandled (OSError 36 (''/srv/app/outputs/'' @ replicate 256 (CHR ''a''))) \<and>
   status (outputs_serve example_ok example_fs (replicate 256 (CHR ''a''))) = 500 \<and>
   outputs_serve example_ok example_fs ''../uploads/old.mp3'' = File_response ''OLD''"
  by code_simp

subsection \<open>C6: the health endpoint\<close>

text \<open>
  C6 says that \<open>ffmpeg\<close> is true exactly when the version query of the mixing tool
  succeeds, and that the request never fails. \<open>_ffmpeg_exists\<close> runs the query with
  \<open>check=False\<close> and does not look at the return code, so a tool that starts and exits
  with an error is reported as present. What holds, when starting the version query
  raises nothing but \<open>FileNotFoundError\<close>: the answer is 200 with \<open>status\<close> equal to
  \<open>ok\<close>; \<open>demucs\<close> is true exactly when the help invocation of the separation tool
  completes with return code 0; \<open>ffmpeg\<close> is true exactly when the version query could
  be run, whatever its return code.
\<close>

theorem health_response:
  assumes "\<forall>x. fst (ffmpeg_proc e [''ffmpeg'', ''-version''] fs) = Raised x \<longrightarrow>
             (\<exists>m. x = FileNotFoundError m)"
  shows "health e fs =
     Json_response 200 (JObject
       [(''status'', JString ''ok''),
        (''demucs'', JBool (\<exists>out err.
            fst (demucs_proc e [executable e, ''-m'', ''demucs'', ''-h''] fs) =
              Completed 0 out err)),
        (''ffmpeg'', JBool (\<exists>rc out err.
            fst (ffmpeg_proc e [''ffmpeg'', ''-version''] fs) = Completed rc out err))])"
  using assms
  by (auto simp: health_def ffmpeg_exists_def Let_def split: proc.splits exn.splits)

theorem health_response_witness:
  "health example_no_ffmpeg example_fs =
     Json_response 200 (JObject
       [(''status'', JString ''ok''), (''demucs'', JBool True), (''ffmpeg'', JBool False)])"
proof -
  have v: "fst (ffmpeg_proc example_no_ffmpeg [''ffmpeg'', ''-version''] example_fs) =
      Raised (FileNotFoundError ''ffmpeg'')"
    and h: "fst (demucs_proc example_no_ffmpeg
         [executable example_no_ffmpeg, ''-m'', ''demucs'', ''-h''] example_fs) =
      Completed 0 [] []"
    by code_simp+
  have "\<forall>x. fst (ffmpeg_proc example_no_ffmpeg [''ffmpeg'', ''-version''] example_fs) =
      Raised x \<longrightarrow> (\<exists>m. x = FileNotFoundError m)"
    using v by simp
  from health_response[OF this] v h show ?thesis by simp
qed

text \<open>
  In the example the version query of the mixing tool exits with code 127, and the
  health endpoint reports \<open>ffmpeg\<close> as true.
\<close>

theorem health_ffmpeg_counterexample:
  "fst (ffmpeg_proc example_broken_ffmpeg [''ffmpeg'', ''-version''] example_fs) =
     Completed 127 [] ''ffmpeg: error while loading shared libraries'' \<and>
   health example_broken_ffmpeg example_fs =
     Json_response 200 (JObject
       [(''status'', JString ''ok''), (''demucs'', JBool True), (''ffmpeg'', JBool True)])"
  by code_simp

subsection \<open>C5: the fallback of the mix\<close>

text \<open>
  C5 says that when the mixing tool is not installed or its invocation exits non-zero,
  the instrumental equals the \<open>other\<close> stem and \<open>make_instrumental\<close> never propagates an
  error. The fallback is a call of \<open>shutil.copy2\<close> that nothing guards: what the copy
  raises reaches the caller, whose \<open>except\<close> answers 500. What holds: when the version
  query raises \<open>FileNotFoundError\<close>, or it runs and the mixing call returns with a return
  code other than 0, the outcome of \<open>make_instrumental\<close> is the outcome of copying the
  \<open>other\<close> stem to the instrumental path; and when the \<open>other\<close> stem is a regular file and
  the instrumental path is another path, in an existing directory, and not itself a
  directory, \<open>make_instrumental\<close> returns normally and the instrumental file has the bytes
  of the \<open>other\<close> stem, which is unchanged.
\<close>

theorem make_instrumental_fallback:
  assumes tool:
      "(\<exists>m. fst (ffmpeg_proc e [''ffmpeg'', ''-version''] fs) = Raised (FileNotFoundError m)) \<or>
       (\<exists>rc out err. fst (ffmpeg_proc e [''ffmpeg'', ''-version''] fs) = Completed rc out err) \<and>
       (\<exists>rc out err.
          fst (ffmpeg_proc e (ffmpeg_cmd drums bass other instrumental_out) fs) =
            Completed rc out err \<and> rc \<noteq> 0)"
  shows "make_instrumental e fs drums bass other instrumental_out =
           (let fs1 = (case fst (ffmpeg_proc e [''ffmpeg'', ''-version''] fs) of
                         Raised x \<Rightarrow> fs
                       | Completed rc out err \<Rightarrow>
                           tool_writes_file fs instrumental_out
                             (snd (ffmpeg_proc e (ffmpeg_cmd drums bass other instrumental_out) fs)))
            in (case copy2 fs1 other instrumental_out of
                  Inl x \<Rightarrow> (Inl x, fs1)
                | Inr fs' \<Rightarrow> (Inr (), fs'))) \<and>
         (\<forall>b. lookup fs other = Some (File b) \<longrightarrow>
              is_dir fs (butlast instrumental_out) \<longrightarrow> instrumental_out \<noteq> [] \<longrightarrow>
              \<not> is_dir fs instrumental_out \<longrightarrow> instrumental_out \<noteq> other \<longrightarrow>
              (\<exists>fs'. make_instrumental e fs drums bass other instrumental_out = (Inr (), fs') \<and>
                 lookup fs' instrumental_out = Some (File b) \<and>
                 lookup fs' other = Some (File b)))"
proof (intro conjI allI impI)
  from tool
  show "make_instrumental e fs drums bass other instrumental_out =
           (let fs1 = (case fst (ffmpeg_proc e [''ffmpeg'', ''-version''] fs) of
                         Raised x \<Rightarrow> fs
                       | Completed rc out err \<Rightarrow>
                           tool_writes_file fs instrumental_out
                             (snd (ffmpeg_proc e (ffmpeg_cmd drums bass other instrumental_out) fs)))
            in (case copy2 fs1 other instrumental_out of
                  Inl x \<Rightarrow> (Inl x, fs1)
                | Inr fs' \<Rightarrow> (Inr (), fs')))"
    by (auto simp: make_instrumental_def ffmpeg_exists_def Let_def split: sum.splits)
next
  fix b
  assume o: "lookup fs other = Some (File b)"
    and d: "is_dir fs (butlast instrumental_out)" and ne: "instrumental_out \<noteq> []"
    and nd: "\<not> is_dir fs instrumental_out" and neq: "instrumental_out \<noteq> other"
  show "\<exists>fs'. make_instrumental e fs drums bass other instrumental_out = (Inr (), fs') \<and>
           lookup fs' instrumental_out = Some (File b) \<and>
           lookup fs' other = Some (File b)"
    using tool
  proof
    assume "\<exists>m. fst (ffmpeg_proc e [''ffmpeg'', ''-version''] fs) = Raised (FileNotFoundError m)"
    then have "ffmpeg_exists e fs = Inr False"
      by (auto simp: ffmpeg_exists_def)
    with copy2_fallback[OF o d ne nd neq] show ?thesis
      by (auto simp: make_instrumental_def)
  next
    let ?r = "ffmpeg_proc e (ffmpeg_cmd drums bass other instrumental_out) fs"
    let ?fs1 = "tool_writes_file fs instrumental_out (snd ?r)"
    assume "(\<exists>rc out err. fst (ffmpeg_proc e [''ffmpeg'', ''-version''] fs) = Completed rc out err) \<and>
         (\<exists>rc out err. fst ?r = Completed rc out err \<and> rc \<noteq> 0)"
    then obtain rc out err where ex: "ffmpeg_exists e fs = Inr True"
      and r: "fst ?r = Completed rc out err" and rc: "rc \<noteq> 0"
      by (auto simp: ffmpeg_exists_def)
    from ne obtain p c where p: "instrumental_out = p @ [c]"
      by (cases instrumental_out rule: rev_cases) auto
    have "lookup ?fs1 other = lookup fs other"
      using tool_writes_file_untouched[of instrumental_out fs "snd ?r"]
        file_dir_diverge[OF o d ne nd neq]
      by (intro untouchedD) auto
    with o have o1: "lookup ?fs1 other = Some (File b)" by simp
    have d1: "is_dir ?fs1 (butlast instrumental_out)"
      using tool_writes_file_keeps_dir[of fs p c "[]" "snd ?r"] d by (simp add: p)
    have nd1: "\<not> is_dir ?fs1 instrumental_out"
      using nd by (rule tool_writes_file_not_dir)
    from copy2_fallback[OF o1 d1 ne nd1 neq] ex r rc show ?thesis
      by (auto simp: make_instrumental_def Let_def)
  qed
qed

theorem make_instrumental_fallback_witness:
  "(\<exists>fs'. make_instrumental example_no_ffmpeg example_separated
            (example_track @ [''drums.wav'']) (example_track @ [''bass.wav''])
            (example_track @ [''other.wav'']) (example_track @ [''instrumental.wav'']) =
            (Inr (), fs') \<and>
          lookup fs' (example_track @ [''instrumental.wav'']) = Some (File ''O'')) \<and>
   (\<exists>fs'. make_instrumental example_broken_ffmpeg example_separated
            (example_track @ [''drums.wav'']) (example_track @ [''bass.wav''])
            (example_track @ [''other.wav'']) (example_track @ [''instrumental.wav'']) =
            (Inr (), fs') \<and>
          lookup fs' (example_track @ [''instrumental.wav'']) = Some (File ''O''))"
proof -
  let ?d = "example_track @ [''drums.wav'']" and ?b = "example_track @ [''bass.wav'']"
  let ?o = "example_track @ [''other.wav'']" and ?i = "example_track @ [''instrumental.wav'']"
  have o: "lookup example_separated ?o = Some (File ''O'')"
    and d: "is_dir example_separated (butlast ?i)" and ne: "?i \<noteq> []"
    and nd: "\<not> is_dir example_separated ?i" and neq: "?i \<noteq> ?o"
    by code_simp+
  have v1: "fst (ffmpeg_proc example_no_ffmpeg [''ffmpeg'', ''-version''] example_separated) =
      Raised (FileNotFoundError ''ffmpeg'')"
    by code_simp
  have v2: "fst (ffmpeg_proc example_broken_ffmpeg [''ffmpeg'', ''-version''] example_separated) =
      Completed 127 [] ''ffmpeg: error while loading shared libraries''"
    and m2: "fst (ffmpeg_proc example_broken_ffmpeg (ffmpeg_cmd ?d ?b ?o ?i) example_separated) =
      Completed 127 [] ''ffmpeg: error while loading shared libraries''"
    by code_simp+
  have t1: "(\<exists>m. fst (ffmpeg_proc example_no_ffmpeg [''ffmpeg'', ''-version''] example_separated) =
                Raised (FileNotFoundError m)) \<or>
       (\<exists>rc out err. fst (ffmpeg_proc example_no_ffmpeg [''ffmpeg'', ''-version''] example_separated) =
                Completed rc out err) \<and>
       (\<exists>rc out err.
          fst (ffmpeg_proc example_no_ffmpeg (ffmpeg_cmd ?d ?b ?o ?i) example_separated) =
            Completed rc out err \<and> rc \<noteq> 0)"
    using v1 by simp
  have t2: "(\<exists>m. fst (ffmpeg_proc example_broken_ffmpeg [''ffmpeg'', ''-version''] example_separated) =
                Raised (FileNotFoundError m)) \<or>
       (\<exists>rc out err. fst (ffmpeg_proc example_broken_ffmpeg [''ffmpeg'', ''-version''] example_separated) =
                Completed rc out err) \<and>
       (\<exists>rc out err.
          fst (ffmpeg_proc example_broken_ffmpeg (ffmpeg_cmd ?d ?b ?o ?i) example_separated) =
            Completed rc out err \<and> rc \<noteq> 0)"
    using v2 m2 by simp
  from make_instrumental_fallback[OF t1] make_instrumental_fallback[OF t2] o d ne nd neq
  show ?thesis by blast
qed

text \<open>
  In the first example the mixing tool is not installed and the separation tool has left
  a directory named \<open>other.wav\<close>: the stem check passes, the copy raises, and
  \<open>make_instrumental\<close> hands the exception to the handler, which answers 500. In the
  second the mixing call exits with an error and its output cannot be decoded:
  \<open>make_instrumental\<close> hands on the exception of \<open>subprocess.run\<close>, and no instrumental
  file is written.
\<close>

theorem make_instrumental_raises_counterexample:
  "fst (ffmpeg_proc example_other_dir [''ffmpeg'', ''-version''] example_separated_dir) =
     Raised (FileNotFoundError ''ffmpeg'') \<and>
   check_stems example_separated_dir
     [example_track @ [''vocals.wav''], example_track @ [''drums.wav''],
      example_track @ [''bass.wav''], example_track @ [''other.wav'']] = None \<and>
   make_instrumental example_other_dir example_separated_dir
     (example_track @ [''drums.wav'']) (example_track @ [''bass.wav''])
     (example_track @ [''other.wav'']) (example_track @ [''instrumental.wav'']) =
     (Inl (IsADirectoryError
        ''/srv/app/outputs/0f8fad5bd9cb469fa16570867728950e/htdemucs/song/other.wav''),
      example_separated_dir) \<and>
   status (fst (upload example_other_dir example_fs (Some example_song))) = 500 \<and>
   make_instrumental example_ffmpeg_garbled example_separated
     (example_track @ [''drums.wav'']) (example_track @ [''bass.wav''])
     (example_track @ [''other.wav'']) (example_track @ [''instrumental.wav'']) =
     (Inl (OtherException ''UnicodeDecodeError''), example_separated) \<and>
   lookup example_separated (example_track @ [''instrumental.wav'']) = None"
  by code_simp

end
